theory Spec2Isabelle
  imports Main
begin

section \<open>JavaScript values\<close>

text \<open>
  The repository is JavaScript: a node is a plain object whose properties hold strings,
  numbers, booleans, nested objects, or nothing. The values the pipeline moves around are
  modelled by the JSON-like fragment below.

  \<^item> A string is a list of bytes, the UTF-8 encoding of the JavaScript string (which is
    assumed well formed: no lone surrogate).
  \<^item> A number is an integer (\<open>JNum\<close>) or \<open>NaN\<close> (\<open>JNaN\<close>). Fractions, infinities and
    the rounding of integers beyond \<open>2^53\<close> are outside the fragment.
  \<^item> An object is the list of its own properties in insertion order. Members that
    JavaScript finds on a prototype (\<open>constructor\<close>, the \<open>length\<close> of a string, ...)
    are outside the fragment: reading them gives \<open>undefined\<close> here.
\<close>

datatype jsval =
    JUndefined
  | JNull
  | JBool bool
  | JNum int
  | JNaN
  | JStr string
  | JObj "(string \<times> jsval) list"

datatype js_error = TypeError | URIError | Error string

text \<open>Truthiness, as \<open>if (v)\<close>, \<open>!v\<close>, \<open>a && b\<close> and \<open>a || b\<close> read a value.\<close>

fun truthy :: "jsval \<Rightarrow> bool" where
  "truthy JUndefined = False"
| "truthy JNull = False"
| "truthy (JBool b) = b"
| "truthy (JNum n) = (n \<noteq> 0)"
| "truthy JNaN = False"
| "truthy (JStr s) = (s \<noteq> [])"
| "truthy (JObj ps) = True"

text \<open>\<open>a || b\<close> on values.\<close>

definition js_or :: "jsval \<Rightarrow> jsval \<Rightarrow> jsval" where
  "js_or a b = (if truthy a then a else b)"

text \<open>\<open>o[k]\<close> where \<open>o\<close> is known not to be \<open>undefined\<close> or \<open>null\<close>.\<close>

fun own_prop :: "jsval \<Rightarrow> string \<Rightarrow> jsval" where
  "own_prop (JObj ps) k = (case map_of ps k of Some v \<Rightarrow> v | None \<Rightarrow> JUndefined)"
| "own_prop _ k = JUndefined"

text \<open>\<open>o.k\<close>: a TypeError when \<open>o\<close> is \<open>undefined\<close> or \<open>null\<close>.\<close>

fun get_prop :: "jsval \<Rightarrow> string \<Rightarrow> js_error + jsval" where
  "get_prop JUndefined k = Inl TypeError"
| "get_prop JNull k = Inl TypeError"
| "get_prop v k = Inr (own_prop v k)"

text \<open>\<open>o?.[k]\<close>: \<open>undefined\<close> when \<open>o\<close> is \<open>undefined\<close> or \<open>null\<close>.\<close>

fun opt_prop :: "jsval \<Rightarrow> string \<Rightarrow> jsval" where
  "opt_prop JUndefined k = JUndefined"
| "opt_prop JNull k = JUndefined"
| "opt_prop v k = own_prop v k"

subsection \<open>Printing numbers and values\<close>

definition digit_char :: "int \<Rightarrow> char" where
  "digit_char d = char_of (48 + d)"

function show_digits :: "int \<Rightarrow> string" where
  \<comment> \<open>the decimal digits of a number that is not negative\<close>
  "show_digits n = (if n < 10 then [digit_char n] else show_digits (n div 10) @ [digit_char (n mod 10)])"
  by pat_completeness auto
termination
  by (relation "measure nat") auto

declare show_digits.simps [simp del]

definition show_int :: "int \<Rightarrow> string" where
  "show_int i = (if i < 0 then CHR ''-'' # show_digits (- i) else show_digits i)"

text \<open>
  \<open>`${v}`\<close> and \<open>String(v)\<close>: the string a template literal inserts for a value.
\<close>

fun to_string :: "jsval \<Rightarrow> string" where
  "to_string JUndefined = ''undefined''"
| "to_string JNull = ''null''"
| "to_string (JBool b) = (if b then ''true'' else ''false'')"
| "to_string (JNum n) = show_int n"
| "to_string JNaN = ''NaN''"
| "to_string (JStr s) = s"
| "to_string (JObj ps) = ''[object Object]''"

subsection \<open>String helpers\<close>

definition starts_with :: "string \<Rightarrow> string \<Rightarrow> bool" where
  \<comment> \<open>\<open>s.startsWith(p)\<close>\<close>
  "starts_with p s = (take (length p) s = p)"

fun js_includes :: "string \<Rightarrow> string \<Rightarrow> bool" where
  \<comment> \<open>\<open>s.includes(p)\<close>\<close>
  "js_includes p [] = (p = [])"
| "js_includes p (c # cs) = (starts_with p (c # cs) \<or> js_includes p cs)"

fun split_on :: "char \<Rightarrow> string \<Rightarrow> string list" where
  \<comment> \<open>\<open>s.split(c)\<close> for a one-character separator\<close>
  "split_on c [] = [[]]"
| "split_on c (x # xs) =
     (if x = c then [] # split_on c xs
      else (case split_on c xs of
              [] \<Rightarrow> [[x]]
            | p # ps \<Rightarrow> (x # p) # ps))"

fun join :: "string \<Rightarrow> string list \<Rightarrow> string" where
  \<comment> \<open>\<open>xs.join(sep)\<close>\<close>
  "join sep [] = []"
| "join sep [x] = x"
| "join sep (x # y # ys) = x @ sep @ join sep (y # ys)"

section \<open>The deduplicator\<close>

text \<open>
  \<^verbatim>\<open>NodeDeduplicator\<close> (\<^verbatim>\<open>src/unnamed/part_010\<close>).

  \<^verbatim>\<open>
  deduplicate(nodes, options = {}) {
    const { compareFields = ['server', 'port', 'protocol'], preferLower = true } = options;
    const uniqueNodes = new Map();
    for (const node of nodes) {
      const key = this.generateKey(node, compareFields);
      const existingNode = uniqueNodes.get(key);
      if (!existingNode) { uniqueNodes.set(key, node); continue; }
      if (preferLower && node.extra.latency && existingNode.extra.latency &&
          node.extra.latency < existingNode.extra.latency) {
        uniqueNodes.set(key, node);
      }
    }
    return Array.from(uniqueNodes.values());
  }
  generateKey(node, fields) {
    return fields.map(field => {
      const value = field.split('.').reduce((obj, key) => obj?.[key], node);
      return `${field}:${value}`;
    }).join('|');
  }
  \<close>
\<close>

record dedup_options =
  compareFields :: "string list option"
  preferLower :: "bool option"

definition default_options :: dedup_options where
  \<comment> \<open>\<open>options = {}\<close>: both properties absent\<close>
  "default_options = \<lparr>compareFields = None, preferLower = None\<rparr>"

definition the_compareFields :: "dedup_options \<Rightarrow> string list" where
  "the_compareFields opts =
     (case compareFields opts of None \<Rightarrow> [''server'', ''port'', ''protocol''] | Some fs \<Rightarrow> fs)"

definition the_preferLower :: "dedup_options \<Rightarrow> bool" where
  "the_preferLower opts = (case preferLower opts of None \<Rightarrow> True | Some b \<Rightarrow> b)"

definition field_value :: "jsval \<Rightarrow> string \<Rightarrow> jsval" where
  \<comment> \<open>\<open>field.split('.').reduce((obj, key) => obj?.[key], node)\<close>\<close>
  "field_value node field = foldl opt_prop node (split_on CHR ''.'' field)"

definition generateKey :: "jsval \<Rightarrow> string list \<Rightarrow> string" where
  "generateKey node flds =
     join ''|'' (map (\<lambda>field. field @ '':'' @ to_string (field_value node field)) flds)"

text \<open>
  The \<open>Map\<close>: an association list in insertion order of the keys. \<open>set\<close> on a key that
  is present replaces the value where the key stands; on a new key it appends.
\<close>

type_synonym node_map = "(string \<times> jsval) list"

fun map_set :: "string \<Rightarrow> jsval \<Rightarrow> node_map \<Rightarrow> node_map" where
  "map_set k v [] = [(k, v)]"
| "map_set k v ((k', v') # m) =
     (if k' = k then (k, v) # m else (k', v') # map_set k v m)"

definition map_get :: "node_map \<Rightarrow> string \<Rightarrow> jsval" where
  \<comment> \<open>\<open>uniqueNodes.get(key)\<close>: \<open>undefined\<close> for a key that is not there\<close>
  "map_get m k = (case map_of m k of None \<Rightarrow> JUndefined | Some v \<Rightarrow> v)"

text \<open>
  The relational operator \<open>a < b\<close> on two numbers. Both operands of the comparison in
  \<open>deduplicate\<close> are truthy when it is evaluated. On operands that are not numbers
  JavaScript compares after a coercion (to a string or to a number) that is not modelled:
  there \<open>js_lt\<close> is \<open>False\<close>, and every statement below that depends on the outcome of
  a comparison is about numeric latencies.
\<close>

fun js_lt :: "jsval \<Rightarrow> jsval \<Rightarrow> bool" where
  "js_lt (JNum a) (JNum b) = (a < b)"
| "js_lt _ _ = False"

text \<open>\<open>node.extra.latency\<close>: two property reads, each of which can throw.\<close>

definition extra_latency :: "jsval \<Rightarrow> js_error + jsval" where
  "extra_latency node =
     (case get_prop node ''extra'' of
        Inl e \<Rightarrow> Inl e
      | Inr ex \<Rightarrow> get_prop ex ''latency'')"

text \<open>
  The condition of the second \<open>if\<close>, with the short circuit of \<open>&&\<close>: a later operand
  is read only when the earlier ones are truthy.
\<close>

definition replaces :: "bool \<Rightarrow> jsval \<Rightarrow> jsval \<Rightarrow> js_error + bool" where
  "replaces pl node existingNode =
     (if \<not> pl then Inr False
      else case extra_latency node of
        Inl e \<Rightarrow> Inl e
      | Inr l \<Rightarrow>
          if \<not> truthy l then Inr False
          else case extra_latency existingNode of
            Inl e \<Rightarrow> Inl e
          | Inr l' \<Rightarrow>
              if \<not> truthy l' then Inr False
              else Inr (js_lt l l'))"

text \<open>One iteration of the \<open>for\<close> loop: the map after \<open>node\<close>, or the exception.\<close>

definition dedup_step :: "string list \<Rightarrow> bool \<Rightarrow> jsval \<Rightarrow> node_map \<Rightarrow> js_error + node_map" where
  "dedup_step fs pl node m =
     (let key = generateKey node fs;
          existingNode = map_get m key
      in if \<not> truthy existingNode then Inr (map_set key node m)
         else case replaces pl node existingNode of
                Inl e \<Rightarrow> Inl e
              | Inr b \<Rightarrow> Inr (if b then map_set key node m else m))"

fun dedup_loop :: "string list \<Rightarrow> bool \<Rightarrow> jsval list \<Rightarrow> node_map \<Rightarrow> js_error + node_map" where
  "dedup_loop fs pl [] m = Inr m"
| "dedup_loop fs pl (node # nodes) m =
     (case dedup_step fs pl node m of
        Inl e \<Rightarrow> Inl e
      | Inr m' \<Rightarrow> dedup_loop fs pl nodes m')"

definition deduplicate :: "jsval list \<Rightarrow> dedup_options \<Rightarrow> js_error + jsval list" where
  "deduplicate nodes opts =
     (case dedup_loop (the_compareFields opts) (the_preferLower opts) nodes [] of
        Inl e \<Rightarrow> Inl e
      | Inr m \<Rightarrow> Inr (map snd m))"

text \<open>What the statements about the deduplicator speak of.\<close>

definition server_of :: "jsval \<Rightarrow> jsval" where
  "server_of n = opt_prop n ''server''"

definition port_of :: "jsval \<Rightarrow> jsval" where
  "port_of n = opt_prop n ''port''"

definition protocol_of :: "jsval \<Rightarrow> jsval" where
  "protocol_of n = opt_prop n ''protocol''"

definition same_fingerprint :: "jsval \<Rightarrow> jsval \<Rightarrow> bool" where
  \<comment> \<open>two nodes agree on all three of server, port and protocol\<close>
  "same_fingerprint a b =
     (server_of a = server_of b \<and> port_of a = port_of b \<and> protocol_of a = protocol_of b)"

definition is_object :: "jsval \<Rightarrow> bool" where
  "is_object v = (case v of JObj ps \<Rightarrow> True | _ \<Rightarrow> False)"

definition has_extra :: "jsval \<Rightarrow> bool" where
  \<comment> \<open>the node carries an \<open>extra\<close> object\<close>
  "has_extra n = is_object (own_prop n ''extra'')"

definition latency_of :: "jsval \<Rightarrow> jsval" where
  \<comment> \<open>\<open>node.extra.latency\<close> of a node that has an \<open>extra\<close> object\<close>
  "latency_of n = own_prop (own_prop n ''extra'') ''latency''"

definition probed_or_unprobed :: "jsval \<Rightarrow> bool" where
  \<comment> \<open>a node with an \<open>extra\<close> object whose latency is a number or absent\<close>
  "probed_or_unprobed n =
     (has_extra n \<and> (case latency_of n of JUndefined \<Rightarrow> True | JNum l \<Rightarrow> True | _ \<Rightarrow> False))"

definition carries_latency :: "jsval \<Rightarrow> bool" where
  \<comment> \<open>what the code takes for "has a latency": the value is truthy, so not \<open>0\<close>\<close>
  "carries_latency n = truthy (latency_of n)"

definition latency_ms :: "jsval \<Rightarrow> int" where
  "latency_ms n = (case latency_of n of JNum l \<Rightarrow> l | _ \<Rightarrow> 0)"

definition first_occurrences :: "'a list \<Rightarrow> 'a list" where
  \<comment> \<open>the distinct elements of a list, each where it first occurs\<close>
  "first_occurrences xs = rev (remdups (rev xs))"

definition first_with_key :: "string list \<Rightarrow> jsval list \<Rightarrow> string \<Rightarrow> jsval option" where
  \<comment> \<open>the earliest node of the list with the given key\<close>
  "first_with_key fs nodes k = find (\<lambda>n. generateKey n fs = k) nodes"

text \<open>
  What the kept node of a key satisfies, over the nodes \<open>xs\<close> seen so far: with
  \<open>preferLower\<close> and a latency of its own it is at most as slow as every node of the key
  that carries a latency; otherwise it is the earliest node of the key.
\<close>

definition winner_inv :: "string list \<Rightarrow> bool \<Rightarrow> jsval list \<Rightarrow> string \<Rightarrow> jsval \<Rightarrow> bool" where
  "winner_inv fs pl xs k w =
     (probed_or_unprobed w \<and>
      (pl \<and> carries_latency w \<longrightarrow>
         (\<forall>n \<in> set xs. generateKey n fs = k \<and> carries_latency n \<longrightarrow> latency_ms w \<le> latency_ms n)) \<and>
      (\<not> pl \<or> \<not> carries_latency w \<longrightarrow> first_with_key fs xs k = Some w))"

text \<open>Nodes of the scenarios.\<close>

definition scenario_vmess :: jsval where
  "scenario_vmess = JObj [(''type'', JStr ''vmess''), (''name'', JStr ''A''),
     (''server'', JStr ''1.1.1.1''), (''port'', JNum 443), (''protocol'', JStr ''vmess''),
     (''extra'', JObj [])]"

definition scenario_ss :: jsval where
  "scenario_ss = JObj [(''type'', JStr ''ss''), (''name'', JStr ''A''),
     (''server'', JStr ''1.1.1.1''), (''port'', JNum 443), (''protocol'', JStr ''shadowsocks''),
     (''extra'', JObj [])]"

definition probed :: "string \<Rightarrow> string \<Rightarrow> int \<Rightarrow> jsval" where
  \<comment> \<open>a trojan node on port 443 with a name, a server and a measured latency\<close>
  "probed nm srv l = JObj [(''name'', JStr nm), (''server'', JStr srv), (''port'', JNum 443),
     (''protocol'', JStr ''trojan''), (''extra'', JObj [(''latency'', JNum l)])]"

definition bare :: "string \<Rightarrow> string \<Rightarrow> jsval" where
  \<comment> \<open>the same without an \<open>extra\<close> property\<close>
  "bare nm srv = JObj [(''name'', JStr nm), (''server'', JStr srv), (''port'', JNum 443),
     (''protocol'', JStr ''trojan'')]"

definition no_prefer :: dedup_options where
  \<comment> \<open>\<open>{ preferLower: false }\<close>\<close>
  "no_prefer = \<lparr>compareFields = None, preferLower = Some False\<rparr>"

section \<open>Platform functions the decoders call\<close>

text \<open>
  The decoders rest on functions of the JavaScript platform. The ones below are models
  of those functions, written from their specifications (ECMAScript for
  \<open>parseInt\<close>, \<open>decodeURIComponent\<close>, \<open>encodeURIComponent\<close>, \<open>trim\<close>; the WHATWG URL
  standard for \<open>new URL\<close> and \<open>URLSearchParams\<close>), on strings as UTF-8 bytes.
\<close>

subsection \<open>Characters\<close>

definition byte :: "char \<Rightarrow> int" where
  "byte c = of_char c"

definition is_digit :: "char \<Rightarrow> bool" where
  "is_digit c = (48 \<le> byte c \<and> byte c \<le> 57)"

definition is_upper :: "char \<Rightarrow> bool" where
  "is_upper c = (65 \<le> byte c \<and> byte c \<le> 90)"

definition is_lower :: "char \<Rightarrow> bool" where
  "is_lower c = (97 \<le> byte c \<and> byte c \<le> 122)"

definition is_alpha :: "char \<Rightarrow> bool" where
  "is_alpha c = (is_upper c \<or> is_lower c)"

definition is_alnum :: "char \<Rightarrow> bool" where
  "is_alnum c = (is_alpha c \<or> is_digit c)"

definition to_lower :: "char \<Rightarrow> char" where
  "to_lower c = (if is_upper c then char_of (byte c + 32) else c)"

definition is_hex :: "char \<Rightarrow> bool" where
  "is_hex c = (is_digit c \<or> (65 \<le> byte c \<and> byte c \<le> 70) \<or> (97 \<le> byte c \<and> byte c \<le> 102))"

definition hex_val :: "char \<Rightarrow> int" where
  "hex_val c =
     (if is_digit c then byte c - 48
      else if is_upper c then byte c - 55
      else byte c - 87)"

definition hex_digit :: "int \<Rightarrow> char" where
  \<comment> \<open>upper case, as percent-encoding writes it\<close>
  "hex_digit d = (if d < 10 then char_of (48 + d) else char_of (55 + d))"

definition percent_byte :: "char \<Rightarrow> string" where
  \<comment> \<open>\<open>%XX\<close> for one byte\<close>
  "percent_byte c = [CHR ''%'', hex_digit (byte c div 16), hex_digit (byte c mod 16)]"

subsection \<open>White space\<close>

text \<open>
  The length in bytes of the white space character a string starts with, \<open>0\<close> when it
  starts with none. White space is what \<open>trim\<close>, \<open>parseInt\<close> and the regular expression
  class \<open>\s\<close> take for it: TAB, LF, VT, FF, CR, SPACE, U+00A0, U+1680, U+2000 to U+200A,
  U+2028, U+2029, U+202F, U+205F, U+3000 and U+FEFF.
\<close>

definition ws_len :: "string \<Rightarrow> nat" where
  "ws_len s =
     (case map byte (take 3 s) of
        [] \<Rightarrow> 0
      | a # r \<Rightarrow>
          if a = 9 \<or> a = 10 \<or> a = 11 \<or> a = 12 \<or> a = 13 \<or> a = 32 then 1
          else if a = 194 \<and> take 1 r = [160] then 2
          else if a = 225 \<and> r = [154, 128] then 3
          else if a = 226 \<and> take 1 r = [128] \<and>
                  (case drop 1 r of [b] \<Rightarrow> (128 \<le> b \<and> b \<le> 138) \<or> b = 168 \<or> b = 169 \<or> b = 175
                                 | _ \<Rightarrow> False) then 3
          else if a = 226 \<and> r = [129, 159] then 3
          else if a = 227 \<and> r = [128, 128] then 3
          else if a = 239 \<and> r = [187, 191] then 3
          else 0)"

lemma ws_len_drop: "0 < ws_len s \<Longrightarrow> length s - ws_len s < length s"
proof -
  assume h: "0 < ws_len s"
  then have "s \<noteq> []" by (cases s) (simp_all add: ws_len_def)
  then have "0 < length s" by simp
  then show ?thesis using h by arith
qed

function drop_ws :: "string \<Rightarrow> string" where
  \<comment> \<open>the string without its leading white space\<close>
  "drop_ws s = (if ws_len s = 0 then s else drop_ws (drop (ws_len s) s))"
  by pat_completeness auto
termination
  by (relation "measure length") (auto simp: ws_len_drop)

declare drop_ws.simps [simp del]

definition is_blank :: "string \<Rightarrow> bool" where
  \<comment> \<open>\<open>s.trim().length === 0\<close>, that is \<open>!s.trim()\<close>\<close>
  "is_blank s = (drop_ws s = [])"

function remove_ws :: "string \<Rightarrow> string" where
  \<comment> \<open>\<open>s.replace(/[\s\r\n]/g, '')\<close>\<close>
  "remove_ws s =
     (case s of
        [] \<Rightarrow> []
      | c # cs \<Rightarrow> if ws_len s = 0 then c # remove_ws cs else remove_ws (drop (ws_len s) s))"
  by pat_completeness auto
termination
  by (relation "measure length") (auto simp: ws_len_drop)

declare remove_ws.simps [simp del]

subsection \<open>parseInt\<close>

fun digits_value :: "int \<Rightarrow> string \<Rightarrow> int" where
  \<comment> \<open>the number a string of digits of the radix writes\<close>
  "digits_value radix [] = 0"
| "digits_value radix (c # cs) = hex_val c * radix ^ length cs + digits_value radix cs"

definition radix_digit :: "int \<Rightarrow> char \<Rightarrow> bool" where
  "radix_digit radix c = (if radix = 16 then is_hex c else is_digit c)"

text \<open>
  \<open>parseInt(s)\<close> with no radix argument, on a string: leading white space, a sign, a
  \<open>0x\<close> prefix for radix 16, then the longest run of digits; \<open>NaN\<close> when that run is
  empty.
\<close>

definition parseInt_string :: "string \<Rightarrow> jsval" where
  "parseInt_string s =
     (let t = drop_ws s;
          neg = (take 1 t = ''-'');
          u = (if take 1 t = ''-'' \<or> take 1 t = ''+'' then drop 1 t else t);
          hex = (take 2 u = ''0x'' \<or> take 2 u = ''0X'');
          radix = (if hex then 16 else 10);
          v = (if hex then drop 2 u else u);
          ds = takeWhile (radix_digit radix) v
      in if ds = [] then JNaN
         else JNum ((if neg then - 1 else 1) * digits_value radix ds))"

definition parseInt :: "jsval \<Rightarrow> jsval" where
  \<comment> \<open>\<open>parseInt(v)\<close>: the argument is converted to a string first\<close>
  "parseInt v = parseInt_string (to_string v)"

subsection \<open>decodeURIComponent and encodeURIComponent\<close>

definition utf8_follow :: "int \<Rightarrow> nat" where
  \<comment> \<open>how many bytes follow a leading byte; \<open>0\<close> for a byte that cannot lead\<close>
  "utf8_follow b =
     (if 192 \<le> b \<and> b < 224 then 1
      else if 224 \<le> b \<and> b < 240 then 2
      else if 240 \<le> b \<and> b < 248 then 3
      else 0)"

definition utf8_valid :: "int list \<Rightarrow> bool" where
  \<comment> \<open>the bytes are the UTF-8 encoding of one code point beyond ASCII\<close>
  "utf8_valid bs =
     (case bs of
        [a, b] \<Rightarrow> 194 \<le> a \<and> a \<le> 223 \<and> 128 \<le> b \<and> b \<le> 191
      | [a, b, c] \<Rightarrow>
          128 \<le> c \<and> c \<le> 191 \<and>
          ((a = 224 \<and> 160 \<le> b \<and> b \<le> 191) \<or>
           (225 \<le> a \<and> a \<le> 236 \<and> 128 \<le> b \<and> b \<le> 191) \<or>
           (a = 237 \<and> 128 \<le> b \<and> b \<le> 159) \<or>
           (238 \<le> a \<and> a \<le> 239 \<and> 128 \<le> b \<and> b \<le> 191))
      | [a, b, c, d] \<Rightarrow>
          128 \<le> c \<and> c \<le> 191 \<and> 128 \<le> d \<and> d \<le> 191 \<and>
          ((a = 240 \<and> 144 \<le> b \<and> b \<le> 191) \<or>
           (241 \<le> a \<and> a \<le> 243 \<and> 128 \<le> b \<and> b \<le> 191) \<or>
           (a = 244 \<and> 128 \<le> b \<and> b \<le> 143))
      | _ \<Rightarrow> False)"

fun escapes :: "nat \<Rightarrow> string \<Rightarrow> (int list \<times> string) option" where
  \<comment> \<open>reads \<open>n\<close> escapes \<open>%XX\<close>: their bytes and the rest of the string\<close>
  "escapes 0 s = Some ([], s)"
| "escapes (Suc n) (p # h # l # s) =
     (if p = CHR ''%'' \<and> is_hex h \<and> is_hex l then
        (case escapes n s of
           None \<Rightarrow> None
         | Some (bs, r) \<Rightarrow> Some ((hex_val h * 16 + hex_val l) # bs, r))
      else None)"
| "escapes (Suc n) s = None"

lemma escapes_length: "escapes n s = Some (bs, r) \<Longrightarrow> length r \<le> length s"
  by (induction n s arbitrary: bs r rule: escapes.induct)
     (auto split: if_splits option.splits)

lemma escapes_shorter:
  assumes "escapes (Suc n) s = Some (bs, r)"
  shows "length r < length s"
proof -
  from assms obtain p h l s3 where s: "s = p # h # l # s3"
    by (cases "(Suc n, s)" rule: escapes.cases) auto
  from assms obtain bs' where "escapes n s3 = Some (bs', r)"
    by (auto simp: s split: if_splits option.splits)
  then have "length r \<le> length s3" by (rule escapes_length)
  then show ?thesis by (simp add: s)
qed

text \<open>
  \<open>decodeURIComponent(s)\<close>: every \<open>%XX\<close> is replaced by its byte, where the bytes of
  consecutive escapes must form the UTF-8 encoding of a code point; a URIError otherwise
  (\<open>None\<close>). Other characters are kept.
\<close>

function decodeURIComponent :: "string \<Rightarrow> string option" where
  "decodeURIComponent [] = Some []"
| "decodeURIComponent (c # cs) =
     (if c \<noteq> CHR ''%'' then map_option ((#) c) (decodeURIComponent cs)
      else case escapes 1 (c # cs) of
        None \<Rightarrow> None
      | Some (b, r) \<Rightarrow>
          if hd b < 128 then map_option ((#) (char_of (hd b))) (decodeURIComponent r)
          else if utf8_follow (hd b) = 0 then None
          else case escapes (utf8_follow (hd b)) r of
            None \<Rightarrow> None
          | Some (bs, r') \<Rightarrow>
              if utf8_valid (b @ bs)
              then map_option ((@) (map char_of (b @ bs))) (decodeURIComponent r')
              else None)"
  by pat_completeness auto
termination
proof (relation "measure length", goal_cases)
  case 1
  then show ?case by simp
next
  case (2 c cs)
  then show ?case by simp
next
  case (3 c cs x2 b r)
  then have "length r < length (c # cs)"
    using escapes_shorter [of 0 "c # cs" b r] by simp
  then show ?case by simp
next
  case (4 c cs x2 b r x2a bs r')
  then have "length r < length (c # cs)"
    using escapes_shorter [of 0 "c # cs" b r] by simp
  moreover have "length r' \<le> length r"
    using 4 escapes_length [of "utf8_follow (hd b)" r bs r'] by simp
  ultimately show ?case by simp
qed

definition uri_unreserved :: "char \<Rightarrow> bool" where
  \<comment> \<open>what \<open>encodeURIComponent\<close> leaves as it is\<close>
  "uri_unreserved c = (is_alnum c \<or> c \<in> set ''-_.!~*'' \<or> c = CHR 0x27 \<or> c \<in> set ''()'')"

definition encodeURIComponent :: "string \<Rightarrow> string" where
  "encodeURIComponent s = concat (map (\<lambda>c. if uri_unreserved c then [c] else percent_byte c) s)"

subsection \<open>new URL\<close>

text \<open>
  \<open>new URL(s)\<close> after the WHATWG URL standard, for the URIs the decoders meet: an
  absolute URL whose scheme is not one of the special schemes (\<open>http\<close>, \<open>https\<close>, \<open>ws\<close>,
  \<open>wss\<close>, \<open>ftp\<close>, \<open>file\<close>) and whose host is not written in brackets (an IPv6 literal).
  \<open>None\<close> is the TypeError of a failed parse. A special scheme or a bracketed host is
  outside the model, which gives \<open>None\<close> there too; no statement below is about such an
  input. The path is parsed over but not kept: no decoder reads it.
\<close>

record url =
  url_scheme :: string
  url_username :: string
  url_password :: string
  url_hostname :: string
  url_port :: string
  url_query :: "string option"
  url_fragment :: "string option"

definition c0_control_set :: "char \<Rightarrow> bool" where
  "c0_control_set c = (byte c < 32 \<or> 126 < byte c)"

definition fragment_set :: "char \<Rightarrow> bool" where
  "fragment_set c = (c0_control_set c \<or> c = CHR '' '' \<or> c = CHR 0x22 \<or> c \<in> set ''<>`'')"

definition query_set :: "char \<Rightarrow> bool" where
  "query_set c = (c0_control_set c \<or> c = CHR '' '' \<or> c = CHR 0x22 \<or> c \<in> set ''#<>'')"

definition userinfo_set :: "char \<Rightarrow> bool" where
  "userinfo_set c = (query_set c \<or> c \<in> set ''?^`{}/:;=@[]|'' \<or> c = CHR 0x5C)"

definition percent_encode :: "(char \<Rightarrow> bool) \<Rightarrow> string \<Rightarrow> string" where
  "percent_encode in_set s = concat (map (\<lambda>c. if in_set c then percent_byte c else [c]) s)"

definition forbidden_host :: "char \<Rightarrow> bool" where
  "forbidden_host c =
     (byte c = 0 \<or> byte c = 9 \<or> byte c = 10 \<or> byte c = 13 \<or> c = CHR '' '' \<or>
      c \<in> set ''#/:<>?@[]^|'' \<or> c = CHR 0x5C)"

definition special_schemes :: "string list" where
  "special_schemes = [''ftp'', ''file'', ''http'', ''https'', ''ws'', ''wss'']"

definition scheme_char :: "char \<Rightarrow> bool" where
  "scheme_char c = (is_alnum c \<or> c \<in> set ''+-.'')"

definition c0_or_space :: "char \<Rightarrow> bool" where
  "c0_or_space c = (byte c \<le> 32)"

definition url_input :: "string \<Rightarrow> string" where
  \<comment> \<open>leading and trailing C0 controls and spaces go, then every TAB, LF and CR\<close>
  "url_input s =
     filter (\<lambda>c. byte c \<noteq> 9 \<and> byte c \<noteq> 10 \<and> byte c \<noteq> 13)
       (rev (dropWhile c0_or_space (rev (dropWhile c0_or_space s))))"

definition split_last_at :: "string \<Rightarrow> (string \<times> string) option" where
  \<comment> \<open>what stands before and after the last \<open>@\<close>, when there is one\<close>
  "split_last_at s =
     (let after = rev (takeWhile (\<lambda>c. c \<noteq> CHR ''@'') (rev s))
      in if CHR ''@'' \<in> set s then Some (take (length s - length after - 1) s, after) else None)"

definition parse_userinfo :: "string \<Rightarrow> string \<times> string" where
  \<comment> \<open>user name and password: an \<open>@\<close> inside becomes \<open>%40\<close>, the first \<open>:\<close> separates\<close>
  "parse_userinfo ui =
     (let ui' = join ''%40'' (split_on CHR ''@'' ui);
          un = takeWhile (\<lambda>c. c \<noteq> CHR '':'') ui';
          pw = drop 1 (dropWhile (\<lambda>c. c \<noteq> CHR '':'') ui')
      in (percent_encode userinfo_set un, percent_encode userinfo_set pw))"

definition parse_hostport :: "string \<Rightarrow> (string \<times> string) option" where
  \<comment> \<open>host name and port of \<open>host\<close> or \<open>host:port\<close>\<close>
  "parse_hostport hp =
     (let h = takeWhile (\<lambda>c. c \<noteq> CHR '':'') hp;
          rest = dropWhile (\<lambda>c. c \<noteq> CHR '':'') hp;
          p = drop 1 rest
      in if take 1 hp = ''['' then None
         else if rest \<noteq> [] \<and> h = [] then None
         else if \<not> list_all is_digit p then None
         else if p \<noteq> [] \<and> 65535 < digits_value 10 p then None
         else if list_ex forbidden_host h then None
         else Some (percent_encode c0_control_set h,
                    if p = [] then [] else show_digits (digits_value 10 p)))"

definition parse_query_fragment :: "string \<Rightarrow> string option \<times> string option" where
  \<comment> \<open>query and fragment of what follows the authority: a path, \<open>?query\<close>, \<open>#fragment\<close>\<close>
  "parse_query_fragment s =
     (let a = dropWhile (\<lambda>c. c \<noteq> CHR ''?'' \<and> c \<noteq> CHR ''#'') s
      in if take 1 a = ''?'' then
           (let q = takeWhile (\<lambda>c. c \<noteq> CHR ''#'') (drop 1 a);
                f = dropWhile (\<lambda>c. c \<noteq> CHR ''#'') (drop 1 a)
            in (Some (percent_encode query_set q),
                if f = [] then None else Some (percent_encode fragment_set (drop 1 f))))
         else if take 1 a = ''#'' then (None, Some (percent_encode fragment_set (drop 1 a)))
         else (None, None))"

definition new_URL :: "string \<Rightarrow> url option" where
  "new_URL s =
     (let inp = url_input s;
          sch = takeWhile scheme_char inp;
          rest = dropWhile scheme_char inp;
          scheme = map to_lower sch;
          r = drop 1 rest
      in if sch = [] \<or> \<not> is_alpha (hd sch) \<or> take 1 rest \<noteq> '':'' then None
         else if scheme \<in> set special_schemes then None
         else if take 2 r \<noteq> ''//'' then
           (let (q, f) = parse_query_fragment r
            in Some \<lparr>url_scheme = scheme, url_username = [], url_password = [],
                     url_hostname = [], url_port = [], url_query = q, url_fragment = f\<rparr>)
         else
           (let a = drop 2 r;
                auth = takeWhile (\<lambda>c. c \<notin> set ''/?#'') a;
                after = dropWhile (\<lambda>c. c \<notin> set ''/?#'') a;
                (q, f) = parse_query_fragment after
            in case split_last_at auth of
                 None \<Rightarrow>
                   (case parse_hostport auth of
                      None \<Rightarrow> None
                    | Some (h, p) \<Rightarrow>
                        Some \<lparr>url_scheme = scheme, url_username = [], url_password = [],
                              url_hostname = h, url_port = p, url_query = q, url_fragment = f\<rparr>)
               | Some (ui, hp) \<Rightarrow>
                   if hp = [] then None
                   else (case parse_hostport hp of
                      None \<Rightarrow> None
                    | Some (h, p) \<Rightarrow>
                        Some \<lparr>url_scheme = scheme, url_username = fst (parse_userinfo ui),
                              url_password = snd (parse_userinfo ui),
                              url_hostname = h, url_port = p, url_query = q, url_fragment = f\<rparr>)))"

definition url_hash :: "url \<Rightarrow> string" where
  \<comment> \<open>\<open>url.hash\<close>: empty for no fragment and for an empty one\<close>
  "url_hash u = (case url_fragment u of None \<Rightarrow> [] | Some f \<Rightarrow> if f = [] then [] else CHR ''#'' # f)"

subsection \<open>URLSearchParams\<close>

fun percent_decode :: "string \<Rightarrow> string" where
  \<comment> \<open>the URL standard's percent-decode: a \<open>%\<close> that two hex digits do not follow stays\<close>
  "percent_decode (c # h # l # r) =
     (if c = CHR ''%'' \<and> is_hex h \<and> is_hex l
      then char_of (hex_val h * 16 + hex_val l) # percent_decode r
      else c # percent_decode (h # l # r))"
| "percent_decode (c # cs) = c # percent_decode cs"
| "percent_decode [] = []"

definition form_component :: "string \<Rightarrow> string" where
  \<comment> \<open>a name or a value: \<open>+\<close> is a space, then percent-decoding. (The platform then
     decodes the bytes as UTF-8 and replaces ill-formed sequences; that is not modelled.)\<close>
  "form_component s = percent_decode (map (\<lambda>c. if c = CHR ''+'' then CHR '' '' else c) s)"

definition form_pairs :: "string \<Rightarrow> (string \<times> string) list" where
  \<comment> \<open>the \<open>application/x-www-form-urlencoded\<close> parser\<close>
  "form_pairs q =
     map (\<lambda>p. (form_component (takeWhile (\<lambda>c. c \<noteq> CHR ''='') p),
               form_component (drop 1 (dropWhile (\<lambda>c. c \<noteq> CHR ''='') p))))
       (filter (\<lambda>p. p \<noteq> []) (split_on CHR ''&'' q))"

definition searchParams_get :: "url \<Rightarrow> string \<Rightarrow> jsval" where
  \<comment> \<open>\<open>url.searchParams.get(name)\<close>: the first value of the name, or \<open>null\<close>\<close>
  "searchParams_get u name =
     (case map_of (form_pairs (case url_query u of None \<Rightarrow> [] | Some q \<Rightarrow> q)) name of
        None \<Rightarrow> JNull
      | Some v \<Rightarrow> JStr v)"

definition js_substring :: "nat \<Rightarrow> nat \<Rightarrow> string \<Rightarrow> string" where
  \<comment> \<open>\<open>s.substring(a, b)\<close>: the two indices are swapped when \<open>a > b\<close>\<close>
  "js_substring a b s = take (max a b - min a b) (drop (min a b) s)"

definition index_of :: "char \<Rightarrow> string \<Rightarrow> nat" where
  \<comment> \<open>\<open>s.indexOf(c)\<close> for a character that occurs in \<open>s\<close>\<close>
  "index_of c s = length (takeWhile (\<lambda>x. x \<noteq> c) s)"

section \<open>The decoders\<close>

subsection \<open>PlainTextParser.parseTrojan\<close>

text \<open>
  From \<^verbatim>\<open>src/unnamed/part_008\<close>, the class \<open>PlainTextParser\<close>.
  \<^verbatim>\<open>
  parseTrojan(uri) {
    try {
      const url = new URL(uri);
      const name = decodeURIComponent(url.hash.substring(1) || '');
      const server = url.hostname;
      const port = url.port || '443';
      const password = url.username;
      const params = url.searchParams;
      const sni = params.get('sni') || params.get('peer') || '';
      const allowInsecure = params.get('allowInsecure') === '1'
                         || params.get('tls-verification') === 'false';
      return { type: 'trojan', name: name, server: server, port: parseInt(port),
               protocol: 'trojan',
               settings: { password: password, sni: sni, allowInsecure: allowInsecure },
               extra: { raw: uri } };
    } catch (error) { return null; }
  }
  \<close>
\<close>

definition PlainTextParser_parseTrojan :: "string \<Rightarrow> jsval" where
  "PlainTextParser_parseTrojan uri =
     (case new_URL uri of
        None \<Rightarrow> JNull
      | Some url \<Rightarrow>
          (case decodeURIComponent (drop 1 (url_hash url)) of
             None \<Rightarrow> JNull
           | Some name \<Rightarrow>
               (let server = url_hostname url;
                    port = (if url_port url \<noteq> [] then url_port url else ''443'');
                    password = url_username url;
                    sni = js_or (searchParams_get url ''sni'')
                            (js_or (searchParams_get url ''peer'') (JStr []));
                    allowInsecure = (searchParams_get url ''allowInsecure'' = JStr ''1'' \<or>
                                     searchParams_get url ''tls-verification'' = JStr ''false'')
                in JObj [(''type'', JStr ''trojan''), (''name'', JStr name),
                         (''server'', JStr server), (''port'', parseInt (JStr port)),
                         (''protocol'', JStr ''trojan''),
                         (''settings'', JObj [(''password'', JStr password), (''sni'', sni),
                                             (''allowInsecure'', JBool allowInsecure)]),
                         (''extra'', JObj [(''raw'', JStr uri)])])))"

subsection \<open>Base64Parser.parseTrojan and Base64Parser.parseVless\<close>

text \<open>
  From \<^verbatim>\<open>src/src/converter/parser/formats/Base64Parser.js\<close>.
  \<^verbatim>\<open>
  parseTrojan(line) {
    try {
      if (!line.startsWith('trojan://') || !line.includes('@')) { return null; }
      const atIndex = line.indexOf('@');
      const passwordPart = line.substring(8, atIndex);
      const encodedPassword = encodeURIComponent(decodeURIComponent(passwordPart));
      const sanitizedLine = `trojan://${encodedPassword}${line.substring(atIndex)}`;
      const url = new URL(sanitizedLine);
      const password = decodeURIComponent(url.username);
      const server = url.hostname;
      const port = url.port || 443;
      const name = decodeURIComponent(url.hash.substring(1) || '');
      const sni = url.searchParams.get('sni') || server;
      const allowInsecure = url.searchParams.get('allowInsecure') === '1';
      return { type: 'trojan', name: name || `Trojan ${server}:${port}`, server: server,
               port: port, protocol: 'trojan',
               settings: { password: password, sni: sni, allowInsecure: allowInsecure },
               extra: { raw: line } };
    } catch (error) { return null; }
  }
  \<close>
\<close>

definition Base64Parser_parseTrojan :: "string \<Rightarrow> jsval" where
  "Base64Parser_parseTrojan line =
     (if \<not> starts_with ''trojan://'' line \<or> \<not> js_includes ''@'' line then JNull
      else
        (let atIndex = index_of CHR ''@'' line;
             passwordPart = js_substring 8 atIndex line
         in case decodeURIComponent passwordPart of
              None \<Rightarrow> JNull
            | Some decoded \<Rightarrow>
                (let encodedPassword = encodeURIComponent decoded;
                     sanitizedLine = ''trojan://'' @ encodedPassword @ drop atIndex line
                 in case new_URL sanitizedLine of
                      None \<Rightarrow> JNull
                    | Some url \<Rightarrow>
                        (case decodeURIComponent (url_username url) of
                           None \<Rightarrow> JNull
                         | Some password \<Rightarrow>
                             (case decodeURIComponent (drop 1 (url_hash url)) of
                                None \<Rightarrow> JNull
                              | Some name \<Rightarrow>
                                  (let server = url_hostname url;
                                       port = (if url_port url \<noteq> [] then JStr (url_port url) else JNum 443);
                                       sni = js_or (searchParams_get url ''sni'') (JStr server);
                                       allowInsecure = (searchParams_get url ''allowInsecure'' = JStr ''1'')
                                   in JObj [(''type'', JStr ''trojan''),
                                            (''name'', js_or (JStr name)
                                               (JStr (''Trojan '' @ server @ '':'' @ to_string port))),
                                            (''server'', JStr server), (''port'', port),
                                            (''protocol'', JStr ''trojan''),
                                            (''settings'', JObj [(''password'', JStr password),
                                               (''sni'', sni), (''allowInsecure'', JBool allowInsecure)]),
                                            (''extra'', JObj [(''raw'', JStr line)])]))))))"

text \<open>
  \<^verbatim>\<open>
  parseVless(line) {
    try {
      const url = new URL(line);
      const id = url.username;
      const server = url.hostname;
      const port = url.port || 443;
      const name = decodeURIComponent(url.hash.substring(1) || '');
      const type = url.searchParams.get('type') || 'tcp';
      const security = url.searchParams.get('security') || 'none';
      const sni = url.searchParams.get('sni') || server;
      const fp = url.searchParams.get('fp') || '';
      const alpn = url.searchParams.get('alpn') || '';
      const path = url.searchParams.get('path') || '/';
      const host = url.searchParams.get('host') || '';
      const encryption = url.searchParams.get('encryption') || 'none';
      const flow = url.searchParams.get('flow') || '';
      return { type: 'vless', name: name || `VLESS ${server}:${port}`, server: server,
               port: port, protocol: 'vless',
               settings: { id: id, network: type, security: security, sni: sni, fp: fp,
                           alpn: alpn, path: path, host: host, encryption: encryption,
                           flow: flow },
               extra: { raw: line } };
    } catch (error) { return null; }
  }
  \<close>
\<close>

definition Base64Parser_parseVless :: "string \<Rightarrow> jsval" where
  "Base64Parser_parseVless line =
     (case new_URL line of
        None \<Rightarrow> JNull
      | Some url \<Rightarrow>
          (case decodeURIComponent (drop 1 (url_hash url)) of
             None \<Rightarrow> JNull
           | Some name \<Rightarrow>
               (let server = url_hostname url;
                    port = (if url_port url \<noteq> [] then JStr (url_port url) else JNum 443);
                    param = (\<lambda>k d. js_or (searchParams_get url k) (JStr d))
                in JObj [(''type'', JStr ''vless''),
                         (''name'', js_or (JStr name)
                            (JStr (''VLESS '' @ server @ '':'' @ to_string port))),
                         (''server'', JStr server), (''port'', port),
                         (''protocol'', JStr ''vless''),
                         (''settings'', JObj [(''id'', JStr (url_username url)),
                            (''network'', param ''type'' ''tcp''),
                            (''security'', param ''security'' ''none''),
                            (''sni'', param ''sni'' server),
                            (''fp'', param ''fp'' []),
                            (''alpn'', param ''alpn'' []),
                            (''path'', param ''path'' ''/''),
                            (''host'', param ''host'' []),
                            (''encryption'', param ''encryption'' ''none''),
                            (''flow'', param ''flow'' [])]),
                         (''extra'', JObj [(''raw'', JStr line)])])))"

section \<open>The subscription parser\<close>

text \<open>
  What the parser takes from outside this development: the clock and the random ids of
  \<open>normalize\<close>; \<open>JSON.parse\<close> and the platform's base64 decoder (\<open>atob\<close>, or \<open>Buffer\<close>
  where there is no \<open>atob\<close>), which \<open>detectFormat\<close> tries; the decoders of
  \<open>PlainTextParser\<close> for vmess, ss, ssr, http and socks lines, whose bodies rest on base64
  and JSON decoding and on URL setters (each returns a node or \<open>null\<close>: its body is
  inside \<open>try\<close>/\<open>catch\<close>); and the \<open>parse\<close> methods of the three other format parsers,
  each giving a list of candidate nodes or the message of the error it throws.
\<close>

record env =
  generateId :: "nat \<Rightarrow> string"
  isoNow :: "nat \<Rightarrow> string"
  json_parses :: "string \<Rightarrow> bool"
  atob :: "string \<Rightarrow> string option"
  decodeVmess :: "string \<Rightarrow> jsval"
  decodeShadowsocks :: "string \<Rightarrow> jsval"
  decodeShadowsocksR :: "string \<Rightarrow> jsval"
  decodeHttp :: "string \<Rightarrow> jsval"
  decodeSocks :: "string \<Rightarrow> jsval"
  parseBase64 :: "string \<Rightarrow> string + jsval list"
  parseJson :: "string \<Rightarrow> string + jsval list"
  parseYaml :: "string \<Rightarrow> string + jsval list"

subsection \<open>PlainTextParser.parse and parseLine\<close>

text \<open>
  \<^verbatim>\<open>
  parseLine(line) {
    if (line.startsWith('vmess://')) { return this.parseVmess(line); }
    else if (line.startsWith('ss://')) { return this.parseShadowsocks(line); }
    else if (line.startsWith('ssr://')) { return this.parseShadowsocksR(line); }
    else if (line.startsWith('trojan://')) { return this.parseTrojan(line); }
    else if (line.startsWith('http://') || line.startsWith('https://')) {
      return this.parseHttp(line);
    } else if (line.startsWith('socks://') || line.startsWith('socks5://')
            || line.startsWith('sock://')) { return this.parseSocks(line); }
    return null;
  }
  async parse(raw) {
    try {
      const lines = raw.split(/[\r\n]+/).filter(line => line.trim());
      const nodes = [];
      for (const line of lines) {
        const node = this.parseLine(line);
        if (node) { nodes.push(node); }
      }
      return nodes;
    } catch (error) { return []; }
  }
  \<close>
\<close>

definition PlainTextParser_parseLine :: "env \<Rightarrow> string \<Rightarrow> jsval" where
  "PlainTextParser_parseLine e line =
     (if starts_with ''vmess://'' line then decodeVmess e line
      else if starts_with ''ss://'' line then decodeShadowsocks e line
      else if starts_with ''ssr://'' line then decodeShadowsocksR e line
      else if starts_with ''trojan://'' line then PlainTextParser_parseTrojan line
      else if starts_with ''http://'' line \<or> starts_with ''https://'' line then decodeHttp e line
      else if starts_with ''socks://'' line \<or> starts_with ''socks5://'' line \<or>
              starts_with ''sock://'' line then decodeSocks e line
      else JNull)"

definition is_crlf :: "char \<Rightarrow> bool" where
  "is_crlf c = (c = CHR 0x0D \<or> c = CHR 0x0A)"

function split_lines :: "string \<Rightarrow> string list" where
  \<comment> \<open>\<open>s.split(/[\r\n]+/)\<close>\<close>
  "split_lines [] = [[]]"
| "split_lines (c # cs) =
     (if is_crlf c then [] # split_lines (dropWhile is_crlf cs)
      else (case split_lines cs of
              [] \<Rightarrow> [[c]]
            | p # ps \<Rightarrow> (c # p) # ps))"
  by pat_completeness auto
termination
  by (relation "measure length") (auto simp: length_dropWhile_le less_Suc_eq_le)

definition PlainTextParser_parse :: "env \<Rightarrow> string \<Rightarrow> jsval list" where
  "PlainTextParser_parse e raw =
     filter truthy
       (map (PlainTextParser_parseLine e) (filter (\<lambda>line. \<not> is_blank line) (split_lines raw)))"

subsection \<open>SubscriptionParser\<close>

text \<open>
  From \<^verbatim>\<open>src/src/converter/parser/SubscriptionParser.js\<close>.
  \<^verbatim>\<open>
  detectFormat(raw) {
    if ((raw.includes('proxies:') && (raw.includes('rules:') || raw.includes('proxy-groups:'))) ||
        raw.includes('port: ') && raw.includes('mode: ') && raw.includes('proxies:') ||
        (raw.includes('- name:') && raw.includes('server:') && raw.includes('port:')
          && raw.includes('type:'))) { return 'yaml'; }
    try { JSON.parse(raw); return 'json'; } catch (e) { }
    const protocolUrls =
      (raw.match(/(vmess|ss|ssr|trojan|hysteria2|vless):\/\/[^\s]+/g) || []);
    if (protocolUrls.length > 0) { return 'plain'; }
    try {
      const base64Regex = /^[A-Za-z0-9+/=]+$/;
      const cleanedRaw = raw.replace(/[\s\r\n]/g, '');
      if (base64Regex.test(cleanedRaw)) {
        let decoded;
        if (typeof atob !== 'undefined') { decoded = atob(cleanedRaw); }
        else if (typeof Buffer !== 'undefined') {
          decoded = Buffer.from(cleanedRaw, 'base64').toString('utf-8');
        }
        if (decoded && decoded.length > 0) {
          if (decoded.includes('vmess://') || decoded.includes('ss://') ||
              decoded.includes('ssr://') || decoded.includes('trojan://') ||
              decoded.includes('hysteria2://') || decoded.includes('vless://')) {
            return 'base64';
          }
        }
      }
    } catch (e) { }
    if (raw.includes('Proxy:') || (raw.includes('- name:') && raw.includes('type:'))) {
      return 'yaml';
    }
    return 'yaml';
  }
  \<close>
\<close>

datatype format = Base64 | Json | Yaml | Plain

definition uri_schemes :: "string list" where
  "uri_schemes = [''vmess'', ''ss'', ''ssr'', ''trojan'', ''hysteria2'', ''vless'']"

definition uri_here :: "string \<Rightarrow> bool" where
  \<comment> \<open>the regular expression matches at the head of the string: a scheme of the list,
     \<open>://\<close>, and at least one character that is not white space\<close>
  "uri_here s =
     list_ex (\<lambda>p. starts_with (p @ ''://'') s \<and>
                   drop (length p + 3) s \<noteq> [] \<and> ws_len (drop (length p + 3) s) = 0)
       uri_schemes"

fun has_protocol_uri :: "string \<Rightarrow> bool" where
  \<comment> \<open>the regular expression matches somewhere\<close>
  "has_protocol_uri [] = False"
| "has_protocol_uri (c # cs) = (uri_here (c # cs) \<or> has_protocol_uri cs)"

definition base64_char :: "char \<Rightarrow> bool" where
  "base64_char c = (is_alnum c \<or> c \<in> set ''+/='')"

definition detectFormat :: "env \<Rightarrow> string \<Rightarrow> format" where
  "detectFormat e raw =
     (if (js_includes ''proxies:'' raw \<and>
            (js_includes ''rules:'' raw \<or> js_includes ''proxy-groups:'' raw)) \<or>
         (js_includes ''port: '' raw \<and> js_includes ''mode: '' raw \<and> js_includes ''proxies:'' raw) \<or>
         (js_includes ''- name:'' raw \<and> js_includes ''server:'' raw \<and>
            js_includes ''port:'' raw \<and> js_includes ''type:'' raw)
      then Yaml
      else if json_parses e raw then Json
      else if has_protocol_uri raw then Plain
      else if (let cleanedRaw = remove_ws raw
               in cleanedRaw \<noteq> [] \<and> list_all base64_char cleanedRaw \<and>
                  (case atob e cleanedRaw of
                     None \<Rightarrow> False
                   | Some decoded \<Rightarrow>
                       decoded \<noteq> [] \<and>
                       list_ex (\<lambda>p. js_includes (p @ ''://'') decoded) uri_schemes))
      then Base64
      else Yaml)"

text \<open>
  \<^verbatim>\<open>
  normalize(nodes) {
    if (!Array.isArray(nodes)) { return []; }
    return nodes.filter(node => {
      const isValid = node && node.type && node.server && node.port;
      if (!isValid) { this.logger.warn(`...`); }
      return isValid;
    }).map(node => ({
      id: node.id || this.generateId(),
      type: node.type,
      name: node.name || `${node.type}-${node.server}:${node.port}`,
      server: node.server,
      port: parseInt(node.port),
      protocol: node.protocol,
      settings: node.settings || {},
      extra: { ...(node.extra || {}), addedAt: new Date().toISOString() }
    }));
  }
  \<close>
  The candidates are a list here: every format parser returns an array or throws.
\<close>

definition isValid :: "jsval \<Rightarrow> bool" where
  "isValid node =
     (truthy node \<and> truthy (own_prop node ''type'') \<and> truthy (own_prop node ''server'') \<and>
      truthy (own_prop node ''port''))"

definition spread :: "jsval \<Rightarrow> (string \<times> jsval) list" where
  \<comment> \<open>\<open>{...v}\<close>: the own properties of an object; a number or a boolean has none. (The
     characters a string would spread into are not modelled.)\<close>
  "spread v = (case v of JObj ps \<Rightarrow> ps | _ \<Rightarrow> [])"

definition normalize_node :: "env \<Rightarrow> nat \<Rightarrow> jsval \<Rightarrow> jsval" where
  \<comment> \<open>the object the \<open>map\<close> callback builds for the candidate at position \<open>i\<close>\<close>
  "normalize_node e i node =
     JObj [(''id'', js_or (own_prop node ''id'') (JStr (generateId e i))),
           (''type'', own_prop node ''type''),
           (''name'', if truthy (own_prop node ''name'') then own_prop node ''name''
                      else JStr (to_string (own_prop node ''type'') @ ''-'' @
                                 to_string (own_prop node ''server'') @ '':'' @
                                 to_string (own_prop node ''port''))),
           (''server'', own_prop node ''server''),
           (''port'', parseInt (own_prop node ''port'')),
           (''protocol'', own_prop node ''protocol''),
           (''settings'', js_or (own_prop node ''settings'') (JObj [])),
           (''extra'', JObj (map_set ''addedAt'' (JStr (isoNow e i))
                              (spread (js_or (own_prop node ''extra'') (JObj [])))))]"

definition normalize :: "env \<Rightarrow> jsval list \<Rightarrow> jsval list" where
  "normalize e nodes = map (\<lambda>(i, node). normalize_node e i node) (enumerate 0 (filter isValid nodes))"

text \<open>
  \<^verbatim>\<open>
  async parse(raw) {
    if (!raw || typeof raw !== 'string') { throw new Error('Invalid subscription data: ...'); }
    const format = this.detectFormat(raw);
    const parser = this.parsers[format];
    if (!parser) { throw new Error(`Unsupported format: ${format}`); }
    try {
      const nodes = await parser.parse(raw);
      const normalizedNodes = this.normalize(nodes);
      return normalizedNodes;
    } catch (error) {
      for (const [backupFormat, backupParser] of Object.entries(this.parsers)) {
        if (backupFormat !== format) {
          try {
            const nodes = await backupParser.parse(raw);
            return this.normalize(nodes);
          } catch (backupError) { }
        }
      }
      throw new Error(`Failed to parse subscription data: ${error.message}`);
    }
  }
  \<close>
  \<open>this.parsers\<close> is \<open>{ base64, json, yaml, plain }\<close>, in this order.
\<close>

definition run_parser :: "env \<Rightarrow> format \<Rightarrow> string \<Rightarrow> string + jsval list" where
  \<comment> \<open>\<open>this.parsers[format].parse(raw)\<close>: the candidates, or the message of the error\<close>
  "run_parser e f raw =
     (case f of
        Base64 \<Rightarrow> parseBase64 e raw
      | Json \<Rightarrow> parseJson e raw
      | Yaml \<Rightarrow> parseYaml e raw
      | Plain \<Rightarrow> Inr (PlainTextParser_parse e raw))"

fun try_backups :: "env \<Rightarrow> format list \<Rightarrow> string \<Rightarrow> jsval list option" where
  "try_backups e [] raw = None"
| "try_backups e (f # fs) raw =
     (case run_parser e f raw of
        Inr nodes \<Rightarrow> Some (normalize e nodes)
      | Inl msg \<Rightarrow> try_backups e fs raw)"

definition SubscriptionParser_parse :: "env \<Rightarrow> string \<Rightarrow> js_error + jsval list" where
  "SubscriptionParser_parse e raw =
     (if raw = [] then Inl (Error ''Invalid subscription data: empty or not a string'')
      else
        (let format = detectFormat e raw
         in case run_parser e format raw of
              Inr nodes \<Rightarrow> Inr (normalize e nodes)
            | Inl msg \<Rightarrow>
                (case try_backups e (filter (\<lambda>f. f \<noteq> format) [Base64, Json, Yaml, Plain]) raw of
                   Some nodes \<Rightarrow> Inr nodes
                 | None \<Rightarrow> Inl (Error (''Failed to parse subscription data: '' @ msg)))))"

text \<open>
  The invariant of a canonical node as the specification states it: the server is a
  non-empty string, the port a number from 1 to 65535, the protocol one of the known
  protocols.
\<close>

definition known_protocols :: "string list" where
  "known_protocols = [''vmess'', ''vless'', ''shadowsocks'', ''shadowsocksr'', ''trojan'',
     ''hysteria2'', ''http'', ''https'', ''socks5'']"

definition spec_node_invariant :: "jsval \<Rightarrow> bool" where
  "spec_node_invariant n =
     ((case server_of n of JStr s \<Rightarrow> s \<noteq> [] | _ \<Rightarrow> False) \<and>
      (case port_of n of JNum p \<Rightarrow> 1 \<le> p \<and> p \<le> 65535 | _ \<Rightarrow> False) \<and>
      (case protocol_of n of JStr p \<Rightarrow> p \<in> set known_protocols | _ \<Rightarrow> False))"

text \<open>
  A platform for the examples below, whose inputs are lists of URIs: none of them is a
  JSON text (\<open>JSON.parse\<close> throws on each), none is base64, and the three other format
  parsers find nothing in them.
\<close>

definition sample_env :: env where
  "sample_env =
     \<lparr>generateId = (\<lambda>i. ''id'' @ show_int (int i)),
      isoNow = (\<lambda>i. ''2026-01-01T00:00:00.000Z''),
      json_parses = (\<lambda>s. False),
      atob = (\<lambda>s. None),
      decodeVmess = (\<lambda>s. JNull),
      decodeShadowsocks = (\<lambda>s. JNull),
      decodeShadowsocksR = (\<lambda>s. JNull),
      decodeHttp = (\<lambda>s. JNull),
      decodeSocks = (\<lambda>s. JNull),
      parseBase64 = (\<lambda>s. Inr []),
      parseJson = (\<lambda>s. Inr []),
      parseYaml = (\<lambda>s. Inr [])\<rparr>"

text \<open>Inputs of the examples.\<close>

definition trojan_special :: string where
  "trojan_special = ''trojan://p@ss%21@host.example:443?sni=h.example#My%20Node''"

definition vless_line :: string where
  "vless_line = ''vless://uuid@host.example:443#n''"

definition vmess_70000 :: jsval where
  \<comment> \<open>what \<open>PlainTextParser.parseVmess\<close> builds from a link whose JSON is
     \<open>{"ps":"A","add":"h.example","port":70000,"id":"abc"}\<close>\<close>
  "vmess_70000 = JObj [(''type'', JStr ''vmess''), (''name'', JStr ''A''),
     (''server'', JStr ''h.example''), (''port'', JNum 70000), (''protocol'', JStr ''vmess''),
     (''settings'', JObj [(''id'', JStr ''abc''), (''alterId'', JNum 0),
        (''security'', JStr ''auto''), (''network'', JStr ''tcp''), (''wsPath'', JStr []),
        (''wsHeaders'', JObj []), (''tls'', JBool False), (''serverName'', JStr [])]),
     (''extra'', JObj [(''raw'', JObj [(''ps'', JStr ''A''), (''add'', JStr ''h.example''),
        (''port'', JNum 70000), (''id'', JStr ''abc'')])])]"

section \<open>The node tester\<close>











section \<open>The node analyzer\<close>

text \<open>
  \<^verbatim>\<open>NodeAnalyzer\<close> (\<^verbatim>\<open>src/src/converter/analyzer/NodeAnalyzer.js\<close>), the country part of
  \<open>analyze\<close>:
  \<^verbatim>\<open>
  buildCountryRegex() {
    const patterns = Object.keys(this.countryMap).map(key => {
      const escaped = key.replace(/[.*+?^${}()|[\]\\]/g, '\\$&');
      return escaped;
    });
    return new RegExp(`(${patterns.join('|')})`, 'i');
  }
  analyze(node) {
    const result = { country: null, countryCode: null, ... };
    const name = node.name || '';
    const countryMatch = name.match(this.countryRegex);
    if (countryMatch) {
      const countryKey = countryMatch[1];
      result.countryCode = this.countryMap[countryKey];
      switch (result.countryCode) {
        case 'US': result.country = ...; break;
        ...
        default: result.country = countryKey;
      }
      ...
    }
    ...
  }
  \<close>
  \<open>countryMap\<close> is the default table of the constructor, in the order of the source. Its
  keys are flags (two regional indicator symbols), Chinese names and English names, given
  here by their UTF-8 bytes; no key holds a character the escaping touches, so the
  regular expression is the alternation of the keys themselves. The first key is the
  flag U+1F1FA U+1F1F8 of the United States.
\<close>

definition countryMap :: "(string \<times> string) list" where
  "countryMap =
     [
      ([CHR 0xF0, CHR 0x9F, CHR 0x87, CHR 0xBA, CHR 0xF0, CHR 0x9F, CHR 0x87, CHR 0xB8], ''US''),
      ([CHR 0xE7, CHR 0xBE, CHR 0x8E, CHR 0xE5, CHR 0x9B, CHR 0xBD], ''US''),
      (''United States'', ''US''),
      (''USA'', ''US''),
      ([CHR 0xF0, CHR 0x9F, CHR 0x87, CHR 0xAD, CHR 0xF0, CHR 0x9F, CHR 0x87, CHR 0xB0], ''HK''),
      ([CHR 0xE9, CHR 0xA6, CHR 0x99, CHR 0xE6, CHR 0xB8, CHR 0xAF], ''HK''),
      (''Hong Kong'', ''HK''),
      ([CHR 0xF0, CHR 0x9F, CHR 0x87, CHR 0xB9, CHR 0xF0, CHR 0x9F, CHR 0x87, CHR 0xBC], ''TW''),
      ([CHR 0xE5, CHR 0x8F, CHR 0xB0, CHR 0xE6, CHR 0xB9, CHR 0xBE], ''TW''),
      (''Taiwan'', ''TW''),
      ([CHR 0xF0, CHR 0x9F, CHR 0x87, CHR 0xAF, CHR 0xF0, CHR 0x9F, CHR 0x87, CHR 0xB5], ''JP''),
      ([CHR 0xE6, CHR 0x97, CHR 0xA5, CHR 0xE6, CHR 0x9C, CHR 0xAC], ''JP''),
      (''Japan'', ''JP''),
      ([CHR 0xF0, CHR 0x9F, CHR 0x87, CHR 0xB8, CHR 0xF0, CHR 0x9F, CHR 0x87, CHR 0xAC], ''SG''),
      ([CHR 0xE6, CHR 0x96, CHR 0xB0, CHR 0xE5, CHR 0x8A, CHR 0xA0, CHR 0xE5, CHR 0x9D, CHR 0xA1], ''SG''),
      (''Singapore'', ''SG''),
      ([CHR 0xF0, CHR 0x9F, CHR 0x87, CHR 0xB0, CHR 0xF0, CHR 0x9F, CHR 0x87, CHR 0xB7], ''KR''),
      ([CHR 0xE9, CHR 0x9F, CHR 0xA9, CHR 0xE5, CHR 0x9B, CHR 0xBD], ''KR''),
      (''Korea'', ''KR''),
      ([CHR 0xF0, CHR 0x9F, CHR 0x87, CHR 0xAC, CHR 0xF0, CHR 0x9F, CHR 0x87, CHR 0xA7], ''UK''),
      ([CHR 0xE8, CHR 0x8B, CHR 0xB1, CHR 0xE5, CHR 0x9B, CHR 0xBD], ''UK''),
      (''United Kingdom'', ''UK''),
      ([CHR 0xF0, CHR 0x9F, CHR 0x87, CHR 0xA9, CHR 0xF0, CHR 0x9F, CHR 0x87, CHR 0xAA], ''DE''),
      ([CHR 0xE5, CHR 0xBE, CHR 0xB7, CHR 0xE5, CHR 0x9B, CHR 0xBD], ''DE''),
      (''Germany'', ''DE''),
      ([CHR 0xF0, CHR 0x9F, CHR 0x87, CHR 0xAB, CHR 0xF0, CHR 0x9F, CHR 0x87, CHR 0xB7], ''FR''),
      ([CHR 0xE6, CHR 0xB3, CHR 0x95, CHR 0xE5, CHR 0x9B, CHR 0xBD], ''FR''),
      (''France'', ''FR''),
      ([CHR 0xF0, CHR 0x9F, CHR 0x87, CHR 0xAE, CHR 0xF0, CHR 0x9F, CHR 0x87, CHR 0xB3], ''IN''),
      ([CHR 0xE5, CHR 0x8D, CHR 0xB0, CHR 0xE5, CHR 0xBA, CHR 0xA6], ''IN''),
      (''India'', ''IN''),
      ([CHR 0xF0, CHR 0x9F, CHR 0x87, CHR 0xB7, CHR 0xF0, CHR 0x9F, CHR 0x87, CHR 0xBA], ''RU''),
      ([CHR 0xE4, CHR 0xBF, CHR 0x84, CHR 0xE7, CHR 0xBD, CHR 0x97, CHR 0xE6, CHR 0x96, CHR 0xAF], ''RU''),
      (''Russia'', ''RU''),
      ([CHR 0xF0, CHR 0x9F, CHR 0x87, CHR 0xA8, CHR 0xF0, CHR 0x9F, CHR 0x87, CHR 0xA6], ''CA''),
      ([CHR 0xE5, CHR 0x8A, CHR 0xA0, CHR 0xE6, CHR 0x8B, CHR 0xBF, CHR 0xE5, CHR 0xA4, CHR 0xA7], ''CA''),
      (''Canada'', ''CA''),
      ([CHR 0xF0, CHR 0x9F, CHR 0x87, CHR 0xA6, CHR 0xF0, CHR 0x9F, CHR 0x87, CHR 0xBA], ''AU''),
      ([CHR 0xE6, CHR 0xBE, CHR 0xB3, CHR 0xE5, CHR 0xA4, CHR 0xA7, CHR 0xE5, CHR 0x88, CHR 0xA9, CHR 0xE4, CHR 0xBA, CHR 0x9A], ''AU''),
      (''Australia'', ''AU''),
      ([CHR 0xF0, CHR 0x9F, CHR 0x87, CHR 0xAE, CHR 0xF0, CHR 0x9F, CHR 0x87, CHR 0xB9], ''IT''),
      ([CHR 0xE6, CHR 0x84, CHR 0x8F, CHR 0xE5, CHR 0xA4, CHR 0xA7, CHR 0xE5, CHR 0x88, CHR 0xA9], ''IT''),
      (''Italy'', ''IT''),
      ([CHR 0xF0, CHR 0x9F, CHR 0x87, CHR 0xA7, CHR 0xF0, CHR 0x9F, CHR 0x87, CHR 0xB7], ''BR''),
      ([CHR 0xE5, CHR 0xB7, CHR 0xB4, CHR 0xE8, CHR 0xA5, CHR 0xBF], ''BR''),
      (''Brazil'', ''BR''),
      ([CHR 0xF0, CHR 0x9F, CHR 0x87, CHR 0xB3, CHR 0xF0, CHR 0x9F, CHR 0x87, CHR 0xB1], ''NL''),
      ([CHR 0xE8, CHR 0x8D, CHR 0xB7, CHR 0xE5, CHR 0x85, CHR 0xB0], ''NL''),
      (''Netherlands'', ''NL''),
      ([CHR 0xF0, CHR 0x9F, CHR 0x87, CHR 0xB9, CHR 0xF0, CHR 0x9F, CHR 0x87, CHR 0xB7], ''TR''),
      ([CHR 0xE5, CHR 0x9C, CHR 0x9F, CHR 0xE8, CHR 0x80, CHR 0xB3, CHR 0xE5, CHR 0x85, CHR 0xB6], ''TR''),
      (''Turkey'', ''TR''),
      ([CHR 0xF0, CHR 0x9F, CHR 0x87, CHR 0xAE, CHR 0xF0, CHR 0x9F, CHR 0x87, CHR 0xA9], ''ID''),
      ([CHR 0xE5, CHR 0x8D, CHR 0xB0, CHR 0xE5, CHR 0xB0, CHR 0xBC], ''ID''),
      ([CHR 0xE5, CHR 0x8D, CHR 0xB0, CHR 0xE5, CHR 0xBA, CHR 0xA6, CHR 0xE5, CHR 0xB0, CHR 0xBC, CHR 0xE8, CHR 0xA5, CHR 0xBF, CHR 0xE4, CHR 0xBA, CHR 0x9A], ''ID''),
      (''Indonesia'', ''ID''),
      ([CHR 0xF0, CHR 0x9F, CHR 0x87, CHR 0xBB, CHR 0xF0, CHR 0x9F, CHR 0x87, CHR 0xB3], ''VN''),
      ([CHR 0xE8, CHR 0xB6, CHR 0x8A, CHR 0xE5, CHR 0x8D, CHR 0x97], ''VN''),
      (''Vietnam'', ''VN''),
      ([CHR 0xF0, CHR 0x9F, CHR 0x87, CHR 0xB9, CHR 0xF0, CHR 0x9F, CHR 0x87, CHR 0xAD], ''TH''),
      ([CHR 0xE6, CHR 0xB3, CHR 0xB0, CHR 0xE5, CHR 0x9B, CHR 0xBD], ''TH''),
      (''Thailand'', ''TH''),
      ([CHR 0xF0, CHR 0x9F, CHR 0x87, CHR 0xB5, CHR 0xF0, CHR 0x9F, CHR 0x87, CHR 0xAD], ''PH''),
      ([CHR 0xE8, CHR 0x8F, CHR 0xB2, CHR 0xE5, CHR 0xBE, CHR 0x8B, CHR 0xE5, CHR 0xAE, CHR 0xBE], ''PH''),
      (''Philippines'', ''PH''),
      ([CHR 0xF0, CHR 0x9F, CHR 0x87, CHR 0xB2, CHR 0xF0, CHR 0x9F, CHR 0x87, CHR 0xBE], ''MY''),
      ([CHR 0xE9, CHR 0xA9, CHR 0xAC, CHR 0xE6, CHR 0x9D, CHR 0xA5, CHR 0xE8, CHR 0xA5, CHR 0xBF, CHR 0xE4, CHR 0xBA, CHR 0x9A], ''MY''),
      (''Malaysia'', ''MY''),
      ([CHR 0xF0, CHR 0x9F, CHR 0x87, CHR 0xA6, CHR 0xF0, CHR 0x9F, CHR 0x87, CHR 0xB7], ''AR''),
      ([CHR 0xE9, CHR 0x98, CHR 0xBF, CHR 0xE6, CHR 0xA0, CHR 0xB9, CHR 0xE5, CHR 0xBB, CHR 0xB7], ''AR''),
      (''Argentina'', ''AR''),
      ([CHR 0xF0, CHR 0x9F, CHR 0x87, CHR 0xB2, CHR 0xF0, CHR 0x9F, CHR 0x87, CHR 0xBD], ''MX''),
      ([CHR 0xE5, CHR 0xA2, CHR 0xA8, CHR 0xE8, CHR 0xA5, CHR 0xBF, CHR 0xE5, CHR 0x93, CHR 0xA5], ''MX''),
      (''Mexico'', ''MX''),
      ([CHR 0xF0, CHR 0x9F, CHR 0x87, CHR 0xA8, CHR 0xF0, CHR 0x9F, CHR 0x87, CHR 0xB1], ''CL''),
      ([CHR 0xE6, CHR 0x99, CHR 0xBA, CHR 0xE5, CHR 0x88, CHR 0xA9], ''CL''),
      (''Chile'', ''CL''),
      ([CHR 0xF0, CHR 0x9F, CHR 0x87, CHR 0xBF, CHR 0xF0, CHR 0x9F, CHR 0x87, CHR 0xA6], ''ZA''),
      ([CHR 0xE5, CHR 0x8D, CHR 0x97, CHR 0xE9, CHR 0x9D, CHR 0x9E], ''ZA''),
      (''South Africa'', ''ZA''),
      ([CHR 0xF0, CHR 0x9F, CHR 0x87, CHR 0xA6, CHR 0xF0, CHR 0x9F, CHR 0x87, CHR 0xAA], ''AE''),
      ([CHR 0xE9, CHR 0x98, CHR 0xBF, CHR 0xE8, CHR 0x81, CHR 0x94, CHR 0xE9, CHR 0x85, CHR 0x8B], ''AE''),
      (''United Arab Emirates'', ''AE''),
      (''UAE'', ''AE''),
      ([CHR 0xF0, CHR 0x9F, CHR 0x87, CHR 0xAE, CHR 0xF0, CHR 0x9F, CHR 0x87, CHR 0xB1], ''IL''),
      ([CHR 0xE4, CHR 0xBB, CHR 0xA5, CHR 0xE8, CHR 0x89, CHR 0xB2, CHR 0xE5, CHR 0x88, CHR 0x97], ''IL''),
      (''Israel'', ''IL''),
      ([CHR 0xF0, CHR 0x9F, CHR 0x87, CHR 0xA8, CHR 0xF0, CHR 0x9F, CHR 0x87, CHR 0xAD], ''CH''),
      ([CHR 0xE7, CHR 0x91, CHR 0x9E, CHR 0xE5, CHR 0xA3, CHR 0xAB], ''CH''),
      (''Switzerland'', ''CH''),
      ([CHR 0xF0, CHR 0x9F, CHR 0x87, CHR 0xB8, CHR 0xF0, CHR 0x9F, CHR 0x87, CHR 0xAA], ''SE''),
      ([CHR 0xE7, CHR 0x91, CHR 0x9E, CHR 0xE5, CHR 0x85, CHR 0xB8], ''SE''),
      (''Sweden'', ''SE''),
      ([CHR 0xF0, CHR 0x9F, CHR 0x87, CHR 0xB3, CHR 0xF0, CHR 0x9F, CHR 0x87, CHR 0xB4], ''NO''),
      ([CHR 0xE6, CHR 0x8C, CHR 0xAA, CHR 0xE5, CHR 0xA8, CHR 0x81], ''NO''),
      (''Norway'', ''NO''),
      ([CHR 0xF0, CHR 0x9F, CHR 0x87, CHR 0xAB, CHR 0xF0, CHR 0x9F, CHR 0x87, CHR 0xAE], ''FI''),
      ([CHR 0xE8, CHR 0x8A, CHR 0xAC, CHR 0xE5, CHR 0x85, CHR 0xB0], ''FI''),
      (''Finland'', ''FI''),
      ([CHR 0xF0, CHR 0x9F, CHR 0x87, CHR 0xA9, CHR 0xF0, CHR 0x9F, CHR 0x87, CHR 0xB0], ''DK''),
      ([CHR 0xE4, CHR 0xB8, CHR 0xB9, CHR 0xE9, CHR 0xBA, CHR 0xA6], ''DK''),
      (''Denmark'', ''DK''),
      ([CHR 0xF0, CHR 0x9F, CHR 0x87, CHR 0xB5, CHR 0xF0, CHR 0x9F, CHR 0x87, CHR 0xB1], ''PL''),
      ([CHR 0xE6, CHR 0xB3, CHR 0xA2, CHR 0xE5, CHR 0x85, CHR 0xB0], ''PL''),
      (''Poland'', ''PL''),
      ([CHR 0xF0, CHR 0x9F, CHR 0x87, CHR 0xAD, CHR 0xF0, CHR 0x9F, CHR 0x87, CHR 0xBA], ''HU''),
      ([CHR 0xE5, CHR 0x8C, CHR 0x88, CHR 0xE7, CHR 0x89, CHR 0x99, CHR 0xE5, CHR 0x88, CHR 0xA9], ''HU''),
      (''Hungary'', ''HU''),
      ([CHR 0xF0, CHR 0x9F, CHR 0x87, CHR 0xA8, CHR 0xF0, CHR 0x9F, CHR 0x87, CHR 0xBF], ''CZ''),
      ([CHR 0xE6, CHR 0x8D, CHR 0xB7, CHR 0xE5, CHR 0x85, CHR 0x8B], ''CZ''),
      (''Czech Republic'', ''CZ''),
      ([CHR 0xF0, CHR 0x9F, CHR 0x87, CHR 0xA6, CHR 0xF0, CHR 0x9F, CHR 0x87, CHR 0xB9], ''AT''),
      ([CHR 0xE5, CHR 0xA5, CHR 0xA5, CHR 0xE5, CHR 0x9C, CHR 0xB0, CHR 0xE5, CHR 0x88, CHR 0xA9], ''AT''),
      (''Austria'', ''AT''),
      ([CHR 0xF0, CHR 0x9F, CHR 0x87, CHR 0xAE, CHR 0xF0, CHR 0x9F, CHR 0x87, CHR 0xAA], ''IE''),
      ([CHR 0xE7, CHR 0x88, CHR 0xB1, CHR 0xE5, CHR 0xB0, CHR 0x94, CHR 0xE5, CHR 0x85, CHR 0xB0], ''IE''),
      (''Ireland'', ''IE''),
      ([CHR 0xF0, CHR 0x9F, CHR 0x87, CHR 0xB5, CHR 0xF0, CHR 0x9F, CHR 0x87, CHR 0xB9], ''PT''),
      ([CHR 0xE8, CHR 0x91, CHR 0xA1, CHR 0xE8, CHR 0x90, CHR 0x84, CHR 0xE7, CHR 0x89, CHR 0x99], ''PT''),
      (''Portugal'', ''PT''),
      ([CHR 0xF0, CHR 0x9F, CHR 0x87, CHR 0xAC, CHR 0xF0, CHR 0x9F, CHR 0x87, CHR 0xB7], ''GR''),
      ([CHR 0xE5, CHR 0xB8, CHR 0x8C, CHR 0xE8, CHR 0x85, CHR 0x8A], ''GR''),
      (''Greece'', ''GR''),
      ([CHR 0xF0, CHR 0x9F, CHR 0x87, CHR 0xAA, CHR 0xF0, CHR 0x9F, CHR 0x87, CHR 0xB8], ''ES''),
      ([CHR 0xE8, CHR 0xA5, CHR 0xBF, CHR 0xE7, CHR 0x8F, CHR 0xAD, CHR 0xE7, CHR 0x89, CHR 0x99], ''ES''),
      (''Spain'', ''ES''),
      ([CHR 0xF0, CHR 0x9F, CHR 0x87, CHR 0xA7, CHR 0xF0, CHR 0x9F, CHR 0x87, CHR 0xAA], ''BE''),
      ([CHR 0xE6, CHR 0xAF, CHR 0x94, CHR 0xE5, CHR 0x88, CHR 0xA9, CHR 0xE6, CHR 0x97, CHR 0xB6], ''BE''),
      (''Belgium'', ''BE''),
      ([CHR 0xF0, CHR 0x9F, CHR 0x87, CHR 0xB1, CHR 0xF0, CHR 0x9F, CHR 0x87, CHR 0xBA], ''LU''),
      ([CHR 0xE5, CHR 0x8D, CHR 0xA2, CHR 0xE6, CHR 0xA3, CHR 0xAE, CHR 0xE5, CHR 0xA0, CHR 0xA1], ''LU''),
      (''Luxembourg'', ''LU''),
      ([CHR 0xF0, CHR 0x9F, CHR 0x87, CHR 0xAE, CHR 0xF0, CHR 0x9F, CHR 0x87, CHR 0xB8], ''IS''),
      ([CHR 0xE5, CHR 0x86, CHR 0xB0, CHR 0xE5, CHR 0xB2, CHR 0x9B], ''IS''),
      (''Iceland'', ''IS''),
      ([CHR 0xF0, CHR 0x9F, CHR 0x87, CHR 0xB2, CHR 0xF0, CHR 0x9F, CHR 0x87, CHR 0xB4], ''MO''),
      ([CHR 0xE6, CHR 0xBE, CHR 0xB3, CHR 0xE9, CHR 0x97, CHR 0xA8], ''MO''),
      (''Macao'', ''MO''),
      ([CHR 0xF0, CHR 0x9F, CHR 0x87, CHR 0xA8, CHR 0xF0, CHR 0x9F, CHR 0x87, CHR 0xB3], ''CN''),
      ([CHR 0xE4, CHR 0xB8, CHR 0xAD, CHR 0xE5, CHR 0x9B, CHR 0xBD], ''CN''),
      (''China'', ''CN'')]"

definition countryNames :: "(string \<times> string) list" where
  \<comment> \<open>the cases of the \<open>switch\<close>: country code and country name\<close>
  "countryNames =
     [
      (''US'', [CHR 0xE7, CHR 0xBE, CHR 0x8E, CHR 0xE5, CHR 0x9B, CHR 0xBD]),
      (''HK'', [CHR 0xE9, CHR 0xA6, CHR 0x99, CHR 0xE6, CHR 0xB8, CHR 0xAF]),
      (''TW'', [CHR 0xE5, CHR 0x8F, CHR 0xB0, CHR 0xE6, CHR 0xB9, CHR 0xBE]),
      (''JP'', [CHR 0xE6, CHR 0x97, CHR 0xA5, CHR 0xE6, CHR 0x9C, CHR 0xAC]),
      (''SG'', [CHR 0xE6, CHR 0x96, CHR 0xB0, CHR 0xE5, CHR 0x8A, CHR 0xA0, CHR 0xE5, CHR 0x9D, CHR 0xA1]),
      (''KR'', [CHR 0xE9, CHR 0x9F, CHR 0xA9, CHR 0xE5, CHR 0x9B, CHR 0xBD]),
      (''UK'', [CHR 0xE8, CHR 0x8B, CHR 0xB1, CHR 0xE5, CHR 0x9B, CHR 0xBD]),
      (''DE'', [CHR 0xE5, CHR 0xBE, CHR 0xB7, CHR 0xE5, CHR 0x9B, CHR 0xBD]),
      (''FR'', [CHR 0xE6, CHR 0xB3, CHR 0x95, CHR 0xE5, CHR 0x9B, CHR 0xBD]),
      (''IN'', [CHR 0xE5, CHR 0x8D, CHR 0xB0, CHR 0xE5, CHR 0xBA, CHR 0xA6]),
      (''RU'', [CHR 0xE4, CHR 0xBF, CHR 0x84, CHR 0xE7, CHR 0xBD, CHR 0x97, CHR 0xE6, CHR 0x96, CHR 0xAF]),
      (''CA'', [CHR 0xE5, CHR 0x8A, CHR 0xA0, CHR 0xE6, CHR 0x8B, CHR 0xBF, CHR 0xE5, CHR 0xA4, CHR 0xA7]),
      (''AU'', [CHR 0xE6, CHR 0xBE, CHR 0xB3, CHR 0xE5, CHR 0xA4, CHR 0xA7, CHR 0xE5, CHR 0x88, CHR 0xA9, CHR 0xE4, CHR 0xBA, CHR 0x9A]),
      (''IT'', [CHR 0xE6, CHR 0x84, CHR 0x8F, CHR 0xE5, CHR 0xA4, CHR 0xA7, CHR 0xE5, CHR 0x88, CHR 0xA9]),
      (''BR'', [CHR 0xE5, CHR 0xB7, CHR 0xB4, CHR 0xE8, CHR 0xA5, CHR 0xBF]),
      (''NL'', [CHR 0xE8, CHR 0x8D, CHR 0xB7, CHR 0xE5, CHR 0x85, CHR 0xB0]),
      (''TR'', [CHR 0xE5, CHR 0x9C, CHR 0x9F, CHR 0xE8, CHR 0x80, CHR 0xB3, CHR 0xE5, CHR 0x85, CHR 0xB6]),
      (''ID'', [CHR 0xE5, CHR 0x8D, CHR 0xB0, CHR 0xE5, CHR 0xBA, CHR 0xA6, CHR 0xE5, CHR 0xB0, CHR 0xBC, CHR 0xE8, CHR 0xA5, CHR 0xBF, CHR 0xE4, CHR 0xBA, CHR 0x9A]),
      (''VN'', [CHR 0xE8, CHR 0xB6, CHR 0x8A, CHR 0xE5, CHR 0x8D, CHR 0x97]),
      (''TH'', [CHR 0xE6, CHR 0xB3, CHR 0xB0, CHR 0xE5, CHR 0x9B, CHR 0xBD]),
      (''PH'', [CHR 0xE8, CHR 0x8F, CHR 0xB2, CHR 0xE5, CHR 0xBE, CHR 0x8B, CHR 0xE5, CHR 0xAE, CHR 0xBE]),
      (''MY'', [CHR 0xE9, CHR 0xA9, CHR 0xAC, CHR 0xE6, CHR 0x9D, CHR 0xA5, CHR 0xE8, CHR 0xA5, CHR 0xBF, CHR 0xE4, CHR 0xBA, CHR 0x9A]),
      (''AR'', [CHR 0xE9, CHR 0x98, CHR 0xBF, CHR 0xE6, CHR 0xA0, CHR 0xB9, CHR 0xE5, CHR 0xBB, CHR 0xB7]),
      (''MX'', [CHR 0xE5, CHR 0xA2, CHR 0xA8, CHR 0xE8, CHR 0xA5, CHR 0xBF, CHR 0xE5, CHR 0x93, CHR 0xA5]),
      (''CL'', [CHR 0xE6, CHR 0x99, CHR 0xBA, CHR 0xE5, CHR 0x88, CHR 0xA9]),
      (''ZA'', [CHR 0xE5, CHR 0x8D, CHR 0x97, CHR 0xE9, CHR 0x9D, CHR 0x9E]),
      (''AE'', [CHR 0xE9, CHR 0x98, CHR 0xBF, CHR 0xE8, CHR 0x81, CHR 0x94, CHR 0xE9, CHR 0x85, CHR 0x8B]),
      (''IL'', [CHR 0xE4, CHR 0xBB, CHR 0xA5, CHR 0xE8, CHR 0x89, CHR 0xB2, CHR 0xE5, CHR 0x88, CHR 0x97]),
      (''CH'', [CHR 0xE7, CHR 0x91, CHR 0x9E, CHR 0xE5, CHR 0xA3, CHR 0xAB]),
      (''SE'', [CHR 0xE7, CHR 0x91, CHR 0x9E, CHR 0xE5, CHR 0x85, CHR 0xB8]),
      (''NO'', [CHR 0xE6, CHR 0x8C, CHR 0xAA, CHR 0xE5, CHR 0xA8, CHR 0x81]),
      (''FI'', [CHR 0xE8, CHR 0x8A, CHR 0xAC, CHR 0xE5, CHR 0x85, CHR 0xB0]),
      (''DK'', [CHR 0xE4, CHR 0xB8, CHR 0xB9, CHR 0xE9, CHR 0xBA, CHR 0xA6]),
      (''PL'', [CHR 0xE6, CHR 0xB3, CHR 0xA2, CHR 0xE5, CHR 0x85, CHR 0xB0]),
      (''HU'', [CHR 0xE5, CHR 0x8C, CHR 0x88, CHR 0xE7, CHR 0x89, CHR 0x99, CHR 0xE5, CHR 0x88, CHR 0xA9]),
      (''CZ'', [CHR 0xE6, CHR 0x8D, CHR 0xB7, CHR 0xE5, CHR 0x85, CHR 0x8B]),
      (''AT'', [CHR 0xE5, CHR 0xA5, CHR 0xA5, CHR 0xE5, CHR 0x9C, CHR 0xB0, CHR 0xE5, CHR 0x88, CHR 0xA9]),
      (''IE'', [CHR 0xE7, CHR 0x88, CHR 0xB1, CHR 0xE5, CHR 0xB0, CHR 0x94, CHR 0xE5, CHR 0x85, CHR 0xB0]),
      (''PT'', [CHR 0xE8, CHR 0x91, CHR 0xA1, CHR 0xE8, CHR 0x90, CHR 0x84, CHR 0xE7, CHR 0x89, CHR 0x99]),
      (''GR'', [CHR 0xE5, CHR 0xB8, CHR 0x8C, CHR 0xE8, CHR 0x85, CHR 0x8A]),
      (''ES'', [CHR 0xE8, CHR 0xA5, CHR 0xBF, CHR 0xE7, CHR 0x8F, CHR 0xAD, CHR 0xE7, CHR 0x89, CHR 0x99]),
      (''BE'', [CHR 0xE6, CHR 0xAF, CHR 0x94, CHR 0xE5, CHR 0x88, CHR 0xA9, CHR 0xE6, CHR 0x97, CHR 0xB6]),
      (''LU'', [CHR 0xE5, CHR 0x8D, CHR 0xA2, CHR 0xE6, CHR 0xA3, CHR 0xAE, CHR 0xE5, CHR 0xA0, CHR 0xA1]),
      (''IS'', [CHR 0xE5, CHR 0x86, CHR 0xB0, CHR 0xE5, CHR 0xB2, CHR 0x9B]),
      (''MO'', [CHR 0xE6, CHR 0xBE, CHR 0xB3, CHR 0xE9, CHR 0x97, CHR 0xA8]),
      (''CN'', [CHR 0xE4, CHR 0xB8, CHR 0xAD, CHR 0xE5, CHR 0x9B, CHR 0xBD])]"

definition us_flag :: string where
  "us_flag = [CHR 0xF0, CHR 0x9F, CHR 0x87, CHR 0xBA, CHR 0xF0, CHR 0x9F, CHR 0x87, CHR 0xB8]"

definition hk_flag :: string where
  "hk_flag = [CHR 0xF0, CHR 0x9F, CHR 0x87, CHR 0xAD, CHR 0xF0, CHR 0x9F, CHR 0x87, CHR 0xB0]"

text \<open>
  Matching with the flag \<open>i\<close>: an ASCII letter matches in either case, every other
  character matches itself. (The pattern has no flag \<open>u\<close>, so the canonicalization never
  maps a character beyond ASCII to an ASCII one, and the characters of the keys beyond
  ASCII have no case.)
\<close>

fun ci_prefix :: "string \<Rightarrow> string \<Rightarrow> bool" where
  \<comment> \<open>the key matches at the head of the string\<close>
  "ci_prefix [] s = True"
| "ci_prefix (p # ps) [] = False"
| "ci_prefix (p # ps) (c # cs) = (to_lower p = to_lower c \<and> ci_prefix ps cs)"

definition key_here :: "string list \<Rightarrow> string \<Rightarrow> bool" where
  \<comment> \<open>one of the keys matches at the head of the string\<close>
  "key_here keys s = list_ex (\<lambda>k. ci_prefix k s) keys"

text \<open>
  \<open>name.match(regex)\<close> for the alternation of the keys: the leftmost position at which a
  key matches, and there the first key of the list that does. The result is the text
  matched, as the name has it.
\<close>

fun regex_match :: "string list \<Rightarrow> string \<Rightarrow> string option" where
  "regex_match keys [] =
     (case find (\<lambda>k. ci_prefix k []) keys of
        Some k \<Rightarrow> Some []
      | None \<Rightarrow> None)"
| "regex_match keys (c # cs) =
     (case find (\<lambda>k. ci_prefix k (c # cs)) keys of
        Some k \<Rightarrow> Some (take (length k) (c # cs))
      | None \<Rightarrow> regex_match keys cs)"

record country_result =
  countryCode :: jsval
  country :: jsval

definition analyze_country :: "jsval \<Rightarrow> js_error + country_result" where
  \<comment> \<open>\<open>countryCode\<close> and \<open>country\<close> of \<open>analyze(node)\<close>; a TypeError when the name is
     truthy and not a string (it has no \<open>match\<close>)\<close>
  "analyze_country node =
     (case js_or (own_prop node ''name'') (JStr []) of
        JStr name \<Rightarrow>
          (case regex_match (map fst countryMap) name of
             None \<Rightarrow> Inr \<lparr>countryCode = JNull, country = JNull\<rparr>
           | Some countryKey \<Rightarrow>
               (case map_of countryMap countryKey of
                  None \<Rightarrow> Inr \<lparr>countryCode = JUndefined, country = JStr countryKey\<rparr>
                | Some code \<Rightarrow>
                    Inr \<lparr>countryCode = JStr code,
                         country = (case map_of countryNames code of
                                      Some n \<Rightarrow> JStr n
                                    | None \<Rightarrow> JStr countryKey)\<rparr>))
      | _ \<Rightarrow> Inl TypeError)"

definition named :: "string \<Rightarrow> jsval" where
  \<comment> \<open>a node with the given display name\<close>
  "named n = JObj [(''name'', JStr n), (''server'', JStr ''h.example''), (''port'', JNum 443),
     (''protocol'', JStr ''trojan'')]"

section \<open>The emitter of the group files\<close>

text \<open>
  \<open>generateGroupedNodeFiles\<close> of the sync script (\<^verbatim>\<open>src/unnamed/part_013\<close>), the loop
  over the region groups. In the source the group names are Chinese and the prefixes hold
  a flag and the name; below \<open>name_HK\<close> ... \<open>name_OTHER\<close> and \<open>prefix_HK\<close> ...
  \<open>prefix_OTHER\<close> stand for them.
  \<^verbatim>\<open>
  for (const group of groups.region) {
    if (group.nodes.length > 0) {
      if (group.name === name_OTHER) { continue; }
      let filename;
      if (group.name === name_HK) filename = 'HK.txt';
      else if (group.name === name_TW) filename = 'TW.txt';
      else if (group.name === name_SG) filename = 'SG.txt';
      else if (group.name === name_US) filename = 'US.txt';
      else if (group.name === name_JP) filename = 'JP.txt';
      else if (group.name === name_OTHER) filename = 'Others.txt';
      else filename = `${group.name}.txt`;
      const rawNodes = group.nodes.map(node => {
          if (node.extra?.raw && typeof node.extra.raw === 'string'
              && node.extra.raw.trim().length > 0) {
            return node.extra.raw;
          }
          let prefix = '';
          if (group.name === name_HK) prefix = prefix_HK;
          else if ... else prefix = '';
          const nodeName = node.name.includes(group.name) ? node.name : `${prefix}${node.name}`;
          if (node.type === 'vmess' && node.settings?.id) {
            const vmessInfo = { v: "2", ps: nodeName, add: node.server,
              port: parseInt(node.port) || 443, id: node.settings.id,
              aid: parseInt(node.settings.alterId) || 0, net: node.settings.network || "tcp",
              type: "none",
              host: (node.settings.wsHeaders && node.settings.wsHeaders.Host) || "",
              path: node.settings.wsPath || "/", tls: node.settings.tls ? "tls" : "none" };
            return `vmess://${Buffer.from(JSON.stringify(vmessInfo)).toString('base64')}`;
          } else if (node.type === 'ss' && node.settings?.method && node.settings?.password) {
            const userInfo = `${node.settings.method}:${node.settings.password}`;
            const base64UserInfo = Buffer.from(userInfo).toString('base64');
            return `ss://${base64UserInfo}@${node.server}:${parseInt(node.port) || 443}`
                 + `#${encodeURIComponent(nodeName)}`;
          } else if (node.type === 'trojan' && node.settings?.password) {
            return `trojan://${node.settings.password}@${node.server}:`
                 + `${parseInt(node.port) || 443}?sni=${node.settings.sni || ''}`
                 + `&allowInsecure=${node.settings.allowInsecure ? '1' : '0'}`
                 + `#${encodeURIComponent(nodeName)}`;
          } else if (node.type === 'ssr' && node.settings) {
            try {
              const ssrParams = { server: node.server, port: parseInt(node.port) || 443,
                protocol: node.settings.protocol || 'origin',
                method: node.settings.method || 'aes-256-cfb',
                obfs: node.settings.obfs || 'plain', password: node.settings.password || '' };
              const base64Params = Buffer.from(
                `${ssrParams.server}:${ssrParams.port}:${ssrParams.protocol}:`
                + `${ssrParams.method}:${ssrParams.obfs}:`
                + `${Buffer.from(ssrParams.password).toString('base64')}`).toString('base64');
              const base64Remarks = Buffer.from(nodeName).toString('base64');
              return `ssr://${base64Params}/?remarks=${base64Remarks}`;
            } catch (error) { return ''; }
          }
          return '';
        })
        .filter(raw => raw.trim().length > 0)
        .join('\n');
      try { fs.writeFileSync(outputPath, rawNodes); generatedFiles++; } catch (writeErr) { }
    }
  }
  \<close>
  The whole loop stands in a \<open>try\<close>: an exception of the callback ends the generation.
  Writing the file is taken to succeed. The loop over the media groups that follows in the
  source starts its callback with the same first \<open>if\<close>.
\<close>

subsection \<open>JSON.stringify and base64\<close>

definition hex_lower :: "int \<Rightarrow> char" where
  "hex_lower d = (if d < 10 then char_of (48 + d) else char_of (87 + d))"

definition json_escape :: "char \<Rightarrow> string" where
  \<comment> \<open>one character inside a JSON string\<close>
  "json_escape c =
     (if c = CHR 0x22 then [CHR 0x5C, CHR 0x22]
      else if c = CHR 0x5C then [CHR 0x5C, CHR 0x5C]
      else if c = CHR 0x08 then [CHR 0x5C, CHR ''b'']
      else if c = CHR 0x0C then [CHR 0x5C, CHR ''f'']
      else if c = CHR 0x0A then [CHR 0x5C, CHR ''n'']
      else if c = CHR 0x0D then [CHR 0x5C, CHR ''r'']
      else if c = CHR 0x09 then [CHR 0x5C, CHR ''t'']
      else if byte c < 32 then [CHR 0x5C, CHR ''u'', CHR ''0'', CHR ''0'',
                                hex_lower (byte c div 16), hex_lower (byte c mod 16)]
      else [c])"

definition json_quote :: "string \<Rightarrow> string" where
  "json_quote s = CHR 0x22 # concat (map json_escape s) @ [CHR 0x22]"

definition json_members :: "(string \<times> string option) list \<Rightarrow> string list" where
  \<comment> \<open>a property whose value is \<open>undefined\<close> is left out\<close>
  "json_members ps =
     concat (map (\<lambda>(k, v). case v of None \<Rightarrow> [] | Some t \<Rightarrow> [json_quote k @ '':'' @ t]) ps)"

primrec json_stringify :: "jsval \<Rightarrow> string option" where
  \<comment> \<open>\<open>JSON.stringify(v)\<close>; \<open>None\<close> is \<open>undefined\<close>\<close>
  "json_stringify JUndefined = None"
| "json_stringify JNull = Some ''null''"
| "json_stringify (JBool b) = Some (if b then ''true'' else ''false'')"
| "json_stringify (JNum n) = Some (show_int n)"
| "json_stringify JNaN = Some ''null''"
| "json_stringify (JStr s) = Some (json_quote s)"
| "json_stringify (JObj ps) =
     Some (''{'' @ join '','' (json_members (map (map_prod id json_stringify) ps)) @ ''}'')"

definition base64_alphabet :: string where
  "base64_alphabet = ''ABCDEFGHIJKLMNOPQRSTUVWXYZabcdefghijklmnopqrstuvwxyz0123456789+/''"

definition base64_digit :: "int \<Rightarrow> char" where
  "base64_digit i = base64_alphabet ! nat i"

fun base64_bytes :: "int list \<Rightarrow> string" where
  "base64_bytes (a # b # c # rest) =
     [base64_digit (a div 4), base64_digit ((a mod 4) * 16 + b div 16),
      base64_digit ((b mod 16) * 4 + c div 64), base64_digit (c mod 64)] @ base64_bytes rest"
| "base64_bytes [a, b] =
     [base64_digit (a div 4), base64_digit ((a mod 4) * 16 + b div 16),
      base64_digit ((b mod 16) * 4), CHR ''='']"
| "base64_bytes [a] = [base64_digit (a div 4), base64_digit ((a mod 4) * 16), CHR ''='', CHR ''='']"
| "base64_bytes [] = []"

definition to_base64 :: "string \<Rightarrow> string" where
  \<comment> \<open>\<open>Buffer.from(s).toString('base64')\<close> for a string\<close>
  "to_base64 s = base64_bytes (map byte s)"

subsection \<open>The line of a node\<close>

definition name_HK :: string where
  \<comment> \<open>the group name U+9999 U+6E2F\<close>
  "name_HK = [CHR 0xE9, CHR 0xA6, CHR 0x99, CHR 0xE6, CHR 0xB8, CHR 0xAF]"

definition name_TW :: string where
  \<comment> \<open>the group name U+53F0 U+6E7E\<close>
  "name_TW = [CHR 0xE5, CHR 0x8F, CHR 0xB0, CHR 0xE6, CHR 0xB9, CHR 0xBE]"

definition name_SG :: string where
  \<comment> \<open>the group name U+65B0 U+52A0 U+5761\<close>
  "name_SG = [CHR 0xE6, CHR 0x96, CHR 0xB0, CHR 0xE5, CHR 0x8A, CHR 0xA0, CHR 0xE5, CHR 0x9D, CHR 0xA1]"

definition name_US :: string where
  \<comment> \<open>the group name U+7F8E U+56FD\<close>
  "name_US = [CHR 0xE7, CHR 0xBE, CHR 0x8E, CHR 0xE5, CHR 0x9B, CHR 0xBD]"

definition name_JP :: string where
  \<comment> \<open>the group name U+65E5 U+672C\<close>
  "name_JP = [CHR 0xE6, CHR 0x97, CHR 0xA5, CHR 0xE6, CHR 0x9C, CHR 0xAC]"

definition name_OTHER :: string where
  \<comment> \<open>the group name U+5176 U+4ED6\<close>
  "name_OTHER = [CHR 0xE5, CHR 0x85, CHR 0xB6, CHR 0xE4, CHR 0xBB, CHR 0x96]"

definition prefix_HK :: string where
  "prefix_HK = [CHR 0xF0, CHR 0x9F, CHR 0x87, CHR 0xAD, CHR 0xF0, CHR 0x9F, CHR 0x87, CHR 0xB0] @ '' '' @ [CHR 0xE9, CHR 0xA6, CHR 0x99, CHR 0xE6, CHR 0xB8, CHR 0xAF] @ '' ''"

definition prefix_TW :: string where
  "prefix_TW = [CHR 0xF0, CHR 0x9F, CHR 0x87, CHR 0xB9, CHR 0xF0, CHR 0x9F, CHR 0x87, CHR 0xBC] @ '' '' @ [CHR 0xE5, CHR 0x8F, CHR 0xB0, CHR 0xE6, CHR 0xB9, CHR 0xBE] @ '' ''"

definition prefix_SG :: string where
  "prefix_SG = [CHR 0xF0, CHR 0x9F, CHR 0x87, CHR 0xB8, CHR 0xF0, CHR 0x9F, CHR 0x87, CHR 0xAC] @ '' '' @ [CHR 0xE6, CHR 0x96, CHR 0xB0, CHR 0xE5, CHR 0x8A, CHR 0xA0, CHR 0xE5, CHR 0x9D, CHR 0xA1] @ '' ''"

definition prefix_US :: string where
  "prefix_US = [CHR 0xF0, CHR 0x9F, CHR 0x87, CHR 0xBA, CHR 0xF0, CHR 0x9F, CHR 0x87, CHR 0xB8] @ '' '' @ [CHR 0xE7, CHR 0xBE, CHR 0x8E, CHR 0xE5, CHR 0x9B, CHR 0xBD] @ '' ''"

definition prefix_JP :: string where
  "prefix_JP = [CHR 0xF0, CHR 0x9F, CHR 0x87, CHR 0xAF, CHR 0xF0, CHR 0x9F, CHR 0x87, CHR 0xB5] @ '' '' @ [CHR 0xE6, CHR 0x97, CHR 0xA5, CHR 0xE6, CHR 0x9C, CHR 0xAC] @ '' ''"

definition prefix_OTHER :: string where
  "prefix_OTHER = [CHR 0xF0, CHR 0x9F, CHR 0x8C, CHR 0x8D] @ '' '' @ [CHR 0xE5, CHR 0x85, CHR 0xB6, CHR 0xE4, CHR 0xBB, CHR 0x96] @ '' ''"


definition js_and :: "jsval \<Rightarrow> jsval \<Rightarrow> jsval" where
  \<comment> \<open>\<open>a && b\<close> on values\<close>
  "js_and a b = (if truthy a then b else a)"

definition parseInt_or :: "jsval \<Rightarrow> int \<Rightarrow> jsval" where
  \<comment> \<open>\<open>parseInt(v) || d\<close>\<close>
  "parseInt_or v d = js_or (parseInt v) (JNum d)"

definition raw_of :: "jsval \<Rightarrow> jsval" where
  \<comment> \<open>\<open>node.extra?.raw\<close> of a node that is an object\<close>
  "raw_of node = opt_prop (own_prop node ''extra'') ''raw''"

definition preserved_raw :: "jsval \<Rightarrow> string option" where
  \<comment> \<open>the guard of the first \<open>if\<close>: the raw URI when it is a string that is not blank\<close>
  "preserved_raw node =
     (case raw_of node of
        JStr r \<Rightarrow> if r \<noteq> [] \<and> \<not> is_blank r then Some r else None
      | _ \<Rightarrow> None)"

definition group_prefix :: "string \<Rightarrow> string" where
  "group_prefix groupName =
     (if groupName = name_HK then prefix_HK
      else if groupName = name_TW then prefix_TW
      else if groupName = name_SG then prefix_SG
      else if groupName = name_US then prefix_US
      else if groupName = name_JP then prefix_JP
      else if groupName = name_OTHER then prefix_OTHER
      else [])"

definition ssr_password_base64 :: "jsval \<Rightarrow> string option" where
  \<comment> \<open>\<open>Buffer.from(password).toString('base64')\<close>: a TypeError (\<open>None\<close>) for a number or a
     boolean, and for an object (one that is not array-like, as every settings object of
     the decoders)\<close>
  "ssr_password_base64 password = (case password of JStr s \<Rightarrow> Some (to_base64 s) | _ \<Rightarrow> None)"

definition synthesize :: "string \<Rightarrow> jsval \<Rightarrow> js_error + string" where
  \<comment> \<open>the callback after its first \<open>if\<close>: the URI built from the fields of the node, the
     empty string when none can be built, a TypeError when the name is not a string\<close>
  "synthesize groupName node =
     (case own_prop node ''name'' of
        JStr name \<Rightarrow>
          (let nodeName = (if js_includes groupName name then name else group_prefix groupName @ name);
               type = own_prop node ''type'';
               settings = own_prop node ''settings'';
               server = own_prop node ''server'';
               port = parseInt_or (own_prop node ''port'') 443
           in if type = JStr ''vmess'' \<and> truthy (opt_prop settings ''id'') then
                (let vmessInfo = JObj
                       [(''v'', JStr ''2''), (''ps'', JStr nodeName), (''add'', server),
                        (''port'', port), (''id'', own_prop settings ''id''),
                        (''aid'', parseInt_or (own_prop settings ''alterId'') 0),
                        (''net'', js_or (own_prop settings ''network'') (JStr ''tcp'')),
                        (''type'', JStr ''none''),
                        (''host'', js_or (js_and (own_prop settings ''wsHeaders'')
                                            (own_prop (own_prop settings ''wsHeaders'') ''Host''))
                                     (JStr [])),
                        (''path'', js_or (own_prop settings ''wsPath'') (JStr ''/'')),
                        (''tls'', JStr (if truthy (own_prop settings ''tls'') then ''tls'' else ''none''))]
                 in Inr (''vmess://'' @ to_base64 (case json_stringify vmessInfo of Some t \<Rightarrow> t | None \<Rightarrow> [])))
              else if type = JStr ''ss'' \<and> truthy (opt_prop settings ''method'') \<and>
                      truthy (opt_prop settings ''password'') then
                Inr (''ss://'' @
                     to_base64 (to_string (own_prop settings ''method'') @ '':'' @
                                to_string (own_prop settings ''password'')) @
                     ''@'' @ to_string server @ '':'' @ to_string port @
                     ''#'' @ encodeURIComponent nodeName)
              else if type = JStr ''trojan'' \<and> truthy (opt_prop settings ''password'') then
                Inr (''trojan://'' @ to_string (own_prop settings ''password'') @
                     ''@'' @ to_string server @ '':'' @ to_string port @
                     ''?sni='' @ to_string (js_or (own_prop settings ''sni'') (JStr [])) @
                     ''&allowInsecure='' @
                     (if truthy (own_prop settings ''allowInsecure'') then ''1'' else ''0'') @
                     ''#'' @ encodeURIComponent nodeName)
              else if type = JStr ''ssr'' \<and> truthy settings then
                (case ssr_password_base64 (js_or (own_prop settings ''password'') (JStr [])) of
                   None \<Rightarrow> Inr []
                 | Some pw \<Rightarrow>
                     Inr (''ssr://'' @
                          to_base64 (to_string server @ '':'' @ to_string port @ '':'' @
                             to_string (js_or (own_prop settings ''protocol'') (JStr ''origin'')) @ '':'' @
                             to_string (js_or (own_prop settings ''method'') (JStr ''aes-256-cfb'')) @ '':'' @
                             to_string (js_or (own_prop settings ''obfs'') (JStr ''plain'')) @ '':'' @ pw) @
                          ''/?remarks='' @ to_base64 nodeName))
              else Inr [])
      | _ \<Rightarrow> Inl TypeError)"

definition nodeLine :: "string \<Rightarrow> jsval \<Rightarrow> js_error + string" where
  \<comment> \<open>the callback of \<open>map\<close>; reading \<open>node.extra\<close> of \<open>undefined\<close> or \<open>null\<close> throws\<close>
  "nodeLine groupName node =
     (case get_prop node ''extra'' of
        Inl e \<Rightarrow> Inl e
      | Inr ex \<Rightarrow>
          (case preserved_raw node of
             Some r \<Rightarrow> Inr r
           | None \<Rightarrow> synthesize groupName node))"

fun map_lines :: "string \<Rightarrow> jsval list \<Rightarrow> js_error + string list" where
  \<comment> \<open>\<open>group.nodes.map(...)\<close>: the lines, or the first exception\<close>
  "map_lines groupName [] = Inr []"
| "map_lines groupName (node # nodes) =
     (case nodeLine groupName node of
        Inl e \<Rightarrow> Inl e
      | Inr l \<Rightarrow>
          (case map_lines groupName nodes of
             Inl e \<Rightarrow> Inl e
           | Inr ls \<Rightarrow> Inr (l # ls)))"








section \<open>Properties of the deduplicator\<close>

lemma map_set_keys: "map fst (map_set k v m) = (if k \<in> fst ` set m then map fst m else map fst m @ [k])"
proof (induction m)
  case Nil
  then show ?case by simp
next
  case (Cons a m)
  obtain k' v' where a: "a = (k', v')" by (cases a)
  show ?case using Cons by (cases "k' = k") (auto simp: a)
qed

lemma map_set_map_of: "map_of (map_set k v m) = (map_of m)(k \<mapsto> v)"
  by (induction m) (auto simp: fun_eq_iff)

lemma map_set_vals: "set (map_set k v m) \<subseteq> insert (k, v) (set m)"
  by (induction m) (auto split: if_splits)

lemma map_set_fresh: "k \<notin> fst ` set m \<Longrightarrow> map_set k v m = m @ [(k, v)]"
  by (induction m) auto

lemma map_get_absent: "k \<notin> fst ` set m \<Longrightarrow> map_get m k = JUndefined"
  by (simp add: map_get_def map_of_eq_None_iff [THEN iffD2])

lemma map_get_in: "truthy (map_get m k) \<Longrightarrow> (k, map_get m k) \<in> set m"
  by (auto simp: map_get_def split: option.splits dest: map_of_SomeD)

lemma dedup_loop_snoc:
  "dedup_loop fs pl (xs @ [x]) m =
     (case dedup_loop fs pl xs m of Inl e \<Rightarrow> Inl e | Inr m' \<Rightarrow> dedup_step fs pl x m')"
  by (induction xs arbitrary: m) (auto split: sum.splits)

lemma first_occurrences_snoc:
  "first_occurrences (xs @ [x]) = (if x \<in> set xs then first_occurrences xs else first_occurrences xs @ [x])"
  by (simp add: first_occurrences_def)

lemma first_occurrences_distinct: "distinct (first_occurrences xs)"
  by (simp add: first_occurrences_def)

lemma first_occurrences_set: "set (first_occurrences xs) = set xs"
  by (simp add: first_occurrences_def)

text \<open>Every outcome of a step: the map is unchanged, or the node was stored under its key.\<close>
lemma dedup_step_cases:
  assumes "dedup_step fs pl x m = Inr m'"
  shows "m' = m \<or> m' = map_set (generateKey x fs) x m"
  using assms by (auto simp: dedup_step_def Let_def split: if_splits sum.splits)

lemma dedup_step_keys:
  assumes "dedup_step fs pl x m = Inr m'"
  shows "map fst m' = (if generateKey x fs \<in> fst ` set m then map fst m else map fst m @ [generateKey x fs])"
proof (cases "generateKey x fs \<in> fst ` set m")
  case True
  then show ?thesis using dedup_step_cases [OF assms] by (metis map_set_keys)
next
  case False
  then have "m' = map_set (generateKey x fs) x m"
    using assms by (auto simp: dedup_step_def Let_def map_get_absent)
  then show ?thesis using False by (simp add: map_set_keys)
qed

lemma dedup_step_entries:
  assumes "dedup_step fs pl x m = Inr m'"
  shows "set m' \<subseteq> insert (generateKey x fs, x) (set m)"
  using dedup_step_cases [OF assms] map_set_vals by auto

lemma dedup_loop_keys:
  "dedup_loop fs pl xs [] = Inr m \<Longrightarrow>
     map fst m = first_occurrences (map (\<lambda>n. generateKey n fs) xs) \<and>
     (\<forall>(k, v) \<in> set m. k = generateKey v fs \<and> v \<in> set xs)"
proof (induction xs arbitrary: m rule: rev_induct)
  case Nil
  then show ?case by (simp add: first_occurrences_def)
next
  case (snoc x xs)
  from snoc.prems obtain m0 where m0: "dedup_loop fs pl xs [] = Inr m0"
    and st: "dedup_step fs pl x m0 = Inr m"
    by (auto simp: dedup_loop_snoc split: sum.splits)
  note IH = snoc.IH [OF m0]
  have keys: "fst ` set m0 = (\<lambda>n. generateKey n fs) ` set xs"
    using IH first_occurrences_set [of "map (\<lambda>n. generateKey n fs) xs"]
    by (metis list.set_map)
  have "map fst m = first_occurrences (map (\<lambda>n. generateKey n fs) (xs @ [x]))"
    using dedup_step_keys [OF st] IH keys by (simp add: first_occurrences_snoc)
  moreover have "\<forall>(k, v) \<in> set m. k = generateKey v fs \<and> v \<in> set (xs @ [x])"
    using dedup_step_entries [OF st] IH by auto
  ultimately show ?case by blast
qed

lemma has_extra_object: "has_extra n \<Longrightarrow> is_object n"
  by (cases n) (auto simp: has_extra_def is_object_def)

lemma is_object_truthy: "is_object n \<Longrightarrow> truthy n"
  by (cases n) (auto simp: is_object_def)

lemma extra_latency_has_extra: "has_extra n \<Longrightarrow> extra_latency n = Inr (latency_of n)"
  by (cases n; cases "own_prop n ''extra''")
     (auto simp: has_extra_def is_object_def extra_latency_def latency_of_def)

lemma extra_latency_error: "extra_latency n = Inl e \<Longrightarrow> e = TypeError"
  by (cases n; cases "own_prop n ''extra''")
     (auto simp: extra_latency_def split: sum.splits)

lemma extra_latency_truthy_object:
  "extra_latency n = Inr l \<Longrightarrow> truthy l \<Longrightarrow> is_object n"
  by (cases n; cases "own_prop n ''extra''")
     (auto simp: extra_latency_def is_object_def split: sum.splits)

lemma extra_latency_no_extra:
  "own_prop n ''extra'' = JUndefined \<Longrightarrow> extra_latency n = Inl TypeError"
  by (cases n) (auto simp: extra_latency_def)

lemma replaces_error: "replaces pl x e = Inl err \<Longrightarrow> err = TypeError"
  by (auto simp: replaces_def split: if_splits sum.splits dest: extra_latency_error)

lemma replaces_has_extra:
  "has_extra x \<Longrightarrow> has_extra e \<Longrightarrow>
   replaces pl x e = Inr (pl \<and> truthy (latency_of x) \<and> truthy (latency_of e) \<and> js_lt (latency_of x) (latency_of e))"
  by (simp add: replaces_def extra_latency_has_extra)

lemma replaces_true_object: "replaces pl x e = Inr True \<Longrightarrow> is_object x"
  by (auto simp: replaces_def split: if_splits sum.splits dest: extra_latency_truthy_object)

lemma dedup_step_error: "dedup_step fs pl x m = Inl e \<Longrightarrow> e = TypeError"
  by (auto simp: dedup_step_def Let_def split: if_splits sum.splits dest: replaces_error)

lemma dedup_loop_error: "dedup_loop fs pl xs m = Inl e \<Longrightarrow> e = TypeError"
  by (induction xs arbitrary: m) (auto split: sum.splits dest: dedup_step_error)

subsection \<open>Totality when every node has an extra object\<close>

lemma dedup_step_total:
  assumes "has_extra x" "\<forall>(k, v) \<in> set m. has_extra v"
  shows "\<exists>m'. dedup_step fs pl x m = Inr m' \<and> (\<forall>(k, v) \<in> set m'. has_extra v)"
proof (cases "truthy (map_get m (generateKey x fs))")
  case False
  then have "dedup_step fs pl x m = Inr (map_set (generateKey x fs) x m)"
    by (simp add: dedup_step_def)
  moreover have "\<forall>(k, v) \<in> set (map_set (generateKey x fs) x m). has_extra v"
    using map_set_vals [of "generateKey x fs" x m] assms by auto
  ultimately show ?thesis by blast
next
  case True
  then have "has_extra (map_get m (generateKey x fs))"
    using map_get_in [OF True] assms(2) by auto
  then obtain b where b: "replaces pl x (map_get m (generateKey x fs)) = Inr b"
    using replaces_has_extra [OF assms(1)] by blast
  then have "dedup_step fs pl x m = Inr (if b then map_set (generateKey x fs) x m else m)"
    using True by (simp add: dedup_step_def)
  moreover have "\<forall>(k, v) \<in> set (if b then map_set (generateKey x fs) x m else m). has_extra v"
    using map_set_vals [of "generateKey x fs" x m] assms by auto
  ultimately show ?thesis by blast
qed

lemma dedup_loop_total:
  "\<forall>n \<in> set xs. has_extra n \<Longrightarrow> \<forall>(k, v) \<in> set m. has_extra v \<Longrightarrow>
   \<exists>m'. dedup_loop fs pl xs m = Inr m'"
proof (induction xs arbitrary: m)
  case Nil
  then show ?case by simp
next
  case (Cons x xs)
  then obtain m1 where "dedup_step fs pl x m = Inr m1" "\<forall>(k, v) \<in> set m1. has_extra v"
    using dedup_step_total [of x m fs pl] by auto
  then show ?case using Cons.IH [of m1] Cons.prems by simp
qed

subsection \<open>Failure on a collision with a node that has no extra\<close>

lemma map_get_map_set: "map_get (map_set k v m) k' = (if k' = k then v else map_get m k')"
  by (simp add: map_get_def map_set_map_of)

lemma dedup_step_keeps_truthy:
  assumes "dedup_step fs pl x m = Inr m'" "truthy (map_get m k)"
  shows "truthy (map_get m' k)"
proof (cases "generateKey x fs = k")
  case False
  then show ?thesis using dedup_step_cases [OF assms(1)] assms(2)
    by (auto simp: map_get_map_set)
next
  case True
  then show ?thesis using assms
    by (auto simp: dedup_step_def Let_def map_get_map_set is_object_truthy
             split: if_splits sum.splits dest: replaces_true_object)
qed

lemma dedup_loop_fails_incumbent:
  "truthy (map_get m k) \<Longrightarrow> j < length xs \<Longrightarrow> generateKey (xs ! j) fs = k \<Longrightarrow>
   extra_latency (xs ! j) = Inl TypeError \<Longrightarrow> dedup_loop fs True xs m = Inl TypeError"
proof (induction xs arbitrary: m j)
  case Nil
  then show ?case by simp
next
  case (Cons x xs)
  show ?case
  proof (cases j)
    case 0
    then show ?thesis using Cons.prems
      by (simp add: dedup_step_def replaces_def)
  next
    case (Suc j')
    show ?thesis
    proof (cases "dedup_step fs True x m")
      case (Inl e)
      then show ?thesis using dedup_step_error [OF Inl] by simp
    next
      case (Inr m')
      have "truthy (map_get m' k)" using dedup_step_keeps_truthy [OF Inr Cons.prems(1)] .
      then have "dedup_loop fs True xs m' = Inl TypeError"
        using Cons.IH [of m' j'] Cons.prems Suc by simp
      then show ?thesis using Inr by simp
    qed
  qed
qed

lemma dedup_step_stores_object:
  assumes "dedup_step fs pl x m = Inr m'" "is_object x"
  shows "truthy (map_get m' (generateKey x fs))"
proof (cases "truthy (map_get m (generateKey x fs))")
  case True
  then show ?thesis using dedup_step_keeps_truthy [OF assms(1)] by simp
next
  case False
  then have "m' = map_set (generateKey x fs) x m" using assms(1) by (simp add: dedup_step_def)
  then show ?thesis using assms(2) by (simp add: map_get_map_set is_object_truthy)
qed

lemma dedup_loop_fails_collision:
  "i < j \<Longrightarrow> j < length xs \<Longrightarrow> is_object (xs ! i) \<Longrightarrow>
   generateKey (xs ! i) fs = generateKey (xs ! j) fs \<Longrightarrow>
   extra_latency (xs ! j) = Inl TypeError \<Longrightarrow> dedup_loop fs True xs m = Inl TypeError"
proof (induction xs arbitrary: m i j)
  case Nil
  then show ?case by simp
next
  case (Cons x xs)
  obtain j' where j: "j = Suc j'" using Cons.prems(1) by (cases j) auto
  show ?case
  proof (cases "dedup_step fs True x m")
    case (Inl e)
    then show ?thesis using dedup_step_error [OF Inl] by simp
  next
    case (Inr m')
    have "dedup_loop fs True xs m' = Inl TypeError"
    proof (cases i)
      case 0
      then have "truthy (map_get m' (generateKey (xs ! j') fs))"
        using dedup_step_stores_object [OF Inr] Cons.prems j by simp
      then show ?thesis
        using dedup_loop_fails_incumbent [of m' "generateKey (xs ! j') fs" j' xs fs] Cons.prems j
        by simp
    next
      case (Suc i')
      then show ?thesis using Cons.IH [of i' j' m'] Cons.prems j by simp
    qed
    then show ?thesis using Inr by simp
  qed
qed

subsection \<open>Fresh keys are appended\<close>

lemma dedup_loop_fresh:
  "distinct (map fst (m1 @ m2)) \<Longrightarrow> \<forall>(k, v) \<in> set m2. k = generateKey v fs \<Longrightarrow>
   dedup_loop fs pl (map snd m2) m1 = Inr (m1 @ m2)"
proof (induction m2 arbitrary: m1)
  case Nil
  then show ?case by simp
next
  case (Cons a m2)
  obtain k v where a: "a = (k, v)" by (cases a)
  have k: "k = generateKey v fs" "k \<notin> fst ` set m1" using Cons.prems a by auto
  then have "dedup_step fs pl v m1 = Inr (m1 @ [(k, v)])"
    by (simp add: dedup_step_def map_get_absent map_set_fresh)
  moreover have "dedup_loop fs pl (map snd m2) (m1 @ [(k, v)]) = Inr ((m1 @ [(k, v)]) @ m2)"
    using Cons.prems a by (intro Cons.IH) auto
  ultimately show ?case by (simp add: a)
qed

lemma probed_has_extra: "probed_or_unprobed n \<Longrightarrow> has_extra n"
  by (simp add: probed_or_unprobed_def)

lemma replaces_probed:
  assumes "probed_or_unprobed x" "probed_or_unprobed e"
  shows "replaces pl x e =
     Inr (pl \<and> carries_latency x \<and> carries_latency e \<and> latency_ms x < latency_ms e)"
proof -
  have "js_lt (latency_of x) (latency_of e) = (latency_ms x < latency_ms e)"
    if "truthy (latency_of x)" "truthy (latency_of e)"
    using that assms
    by (cases "latency_of x"; cases "latency_of e")
       (auto simp: probed_or_unprobed_def latency_ms_def)
  then show ?thesis
    using assms by (auto simp: replaces_has_extra probed_has_extra carries_latency_def)
qed

lemma find_snoc:
  "find P (xs @ [x]) = (case find P xs of Some y \<Rightarrow> Some y | None \<Rightarrow> if P x then Some x else None)"
  by (induction xs) auto

lemma map_of_keys_distinct:
  "distinct (map fst m) \<Longrightarrow> ((k, v) \<in> set m) = (map_of m k = Some v)"
  by (auto dest: map_of_SomeD)

lemma dedup_loop_winner:
  "dedup_loop fs pl xs [] = Inr m \<Longrightarrow> \<forall>n \<in> set xs. probed_or_unprobed n \<Longrightarrow>
   \<forall>k w. map_of m k = Some w \<longrightarrow> winner_inv fs pl xs k w"
proof (induction xs arbitrary: m rule: rev_induct)
  case Nil
  then show ?case by simp
next
  case (snoc x xs)
  from snoc.prems obtain m0 where m0: "dedup_loop fs pl xs [] = Inr m0"
    and st: "dedup_step fs pl x m0 = Inr m"
    by (auto simp: dedup_loop_snoc split: sum.splits)
  have IH: "\<forall>k w. map_of m0 k = Some w \<longrightarrow> winner_inv fs pl xs k w"
    using snoc.IH [OF m0] snoc.prems(2) by simp
  have px: "probed_or_unprobed x" using snoc.prems(2) by simp
  let ?kx = "generateKey x fs"
  have keys0: "fst ` set m0 = (\<lambda>n. generateKey n fs) ` set xs"
    using dedup_loop_keys [OF m0] first_occurrences_set [of "map (\<lambda>n. generateKey n fs) xs"]
    by (metis list.set_map)
  have other: "winner_inv fs pl (xs @ [x]) k w" if "winner_inv fs pl xs k w" "k \<noteq> ?kx" for k w
    using that by (auto simp: winner_inv_def first_with_key_def find_snoc split: option.splits)
  show ?case
  proof (cases "map_of m0 ?kx")
    case None
    then have fresh: "?kx \<notin> fst ` set m0" by (simp add: map_of_eq_None_iff)
    then have m: "m = m0 @ [(?kx, x)]"
      using st by (simp add: dedup_step_def map_get_absent map_set_fresh)
    have nox: "\<forall>n \<in> set xs. generateKey n fs \<noteq> ?kx" using fresh keys0 by (metis imageI)
    then have "find (\<lambda>n. generateKey n fs = ?kx) xs = None" by (simp add: find_None_iff)
    then have wx: "winner_inv fs pl (xs @ [x]) ?kx x"
      using px nox by (auto simp: winner_inv_def first_with_key_def find_snoc)
    show ?thesis
    proof (intro allI impI)
      fix k w assume kw: "map_of m k = Some w"
      show "winner_inv fs pl (xs @ [x]) k w"
      proof (cases "k = ?kx")
        case True
        then have "w = x" using kw None by (simp add: m map_add_def)
        then show ?thesis using wx True by simp
      next
        case False
        then have "map_of m0 k = Some w" using kw by (auto simp: m map_add_def split: option.splits)
        then show ?thesis using IH other False by blast
      qed
    qed
  next
    case (Some e)
    then have ge: "map_get m0 ?kx = e" by (simp add: map_get_def)
    have we: "winner_inv fs pl xs ?kx e" using IH Some by blast
    then have pe: "probed_or_unprobed e" by (simp add: winner_inv_def)
    have te: "truthy e" using pe by (simp add: probed_has_extra has_extra_object is_object_truthy)
    define b where "b = (pl \<and> carries_latency x \<and> carries_latency e \<and> latency_ms x < latency_ms e)"
    have m: "m = (if b then map_set ?kx x m0 else m0)"
      using st te ge by (simp add: dedup_step_def replaces_probed [OF px pe] b_def)
    show ?thesis
    proof (cases b)
      case True
      have wx: "winner_inv fs pl (xs @ [x]) ?kx x"
        unfolding winner_inv_def
      proof (intro conjI impI ballI)
        show "probed_or_unprobed x" by (rule px)
      next
        fix n assume "pl \<and> carries_latency x" and n: "n \<in> set (xs @ [x])"
          and "generateKey n fs = ?kx \<and> carries_latency n"
        then show "latency_ms x \<le> latency_ms n"
          using we True by (auto simp: b_def winner_inv_def)
      next
        assume "\<not> pl \<or> \<not> carries_latency x"
        then show "first_with_key fs (xs @ [x]) ?kx = Some x" using True by (auto simp: b_def)
      qed
      show ?thesis
      proof (intro allI impI)
        fix k w assume kw: "map_of m k = Some w"
        show "winner_inv fs pl (xs @ [x]) k w"
        proof (cases "k = ?kx")
          case k: True
          then have "w = x" using kw True by (simp add: m map_set_map_of)
          then show ?thesis using wx k by simp
        next
          case False
          then have "map_of m0 k = Some w" using kw True by (simp add: m map_set_map_of)
          then show ?thesis using IH other False by blast
        qed
      qed
    next
      case False
      have wexs: "winner_inv fs pl (xs @ [x]) ?kx e"
        unfolding winner_inv_def
      proof (intro conjI impI ballI)
        show "probed_or_unprobed e" by (rule pe)
      next
        fix n assume a: "pl \<and> carries_latency e" and n: "n \<in> set (xs @ [x])"
          and b: "generateKey n fs = ?kx \<and> carries_latency n"
        show "latency_ms e \<le> latency_ms n"
        proof (cases "n \<in> set xs")
          case True
          then show ?thesis using we a b by (auto simp: winner_inv_def)
        next
          case nx: False
          then have "n = x" using n by simp
          then show ?thesis using False a b by (auto simp: b_def)
        qed
      next
        assume "\<not> pl \<or> \<not> carries_latency e"
        then have "first_with_key fs xs ?kx = Some e" using we by (auto simp: winner_inv_def)
        then show "first_with_key fs (xs @ [x]) ?kx = Some e"
          by (simp add: first_with_key_def find_snoc)
      qed
      show ?thesis
      proof (intro allI impI)
        fix k w assume kw: "map_of m k = Some w"
        show "winner_inv fs pl (xs @ [x]) k w"
        proof (cases "k = ?kx")
          case k: True
          then have "w = e" using kw False Some by (simp add: m)
          then show ?thesis using wexs k by simp
        next
          case k: False
          then have "map_of m0 k = Some w" using kw False by (simp add: m)
          then show ?thesis using IH other k by blast
        qed
      qed
    qed
  qed
qed

lemma field_value_simple [simp]:
  "field_value n ''server'' = server_of n"
  "field_value n ''port'' = port_of n"
  "field_value n ''protocol'' = protocol_of n"
  by (simp_all add: field_value_def server_of_def port_of_def protocol_of_def)

lemma default_key:
  "generateKey n [''server'', ''port'', ''protocol''] =
     ''server:'' @ to_string (server_of n) @ ''|port:'' @ to_string (port_of n) @
     ''|protocol:'' @ to_string (protocol_of n)"
  by (simp add: generateKey_def)

lemma same_fingerprint_key:
  "same_fingerprint a b \<Longrightarrow>
   generateKey a [''server'', ''port'', ''protocol''] = generateKey b [''server'', ''port'', ''protocol'']"
  by (simp add: default_key same_fingerprint_def)

lemma dedup_pair_distinct_keys:
  assumes "generateKey a fs \<noteq> generateKey b fs"
  shows "dedup_loop fs pl [a, b] [] = Inr [(generateKey a fs, a), (generateKey b fs, b)]"
  using assms by (simp add: dedup_step_def map_get_def)

text \<open>
  Claim C2. With the default key fields (\<open>compareFields\<close> absent), whenever
  \<open>deduplicate\<close> returns a list: every returned node is an element of the input, and two
  positions of the output whose nodes agree on server, port and protocol are the same
  position, so the output holds that node once. Two nodes with the same server and port
  whose protocols are different strings both survive, in their order, when they are the
  whole input; inside a longer input each of them is represented in the output by a node
  of its own key, and the two representatives are different nodes.
\<close>

theorem deduplicate_default_key:
  assumes "compareFields opts = None"
  shows "(\<forall>out. deduplicate nodes opts = Inr out \<longrightarrow>
            set out \<subseteq> set nodes \<and>
            (\<forall>i<length out. \<forall>j<length out. same_fingerprint (out ! i) (out ! j) \<longrightarrow> i = j))
       \<and> (\<forall>a b p q. server_of a = server_of b \<and> port_of a = port_of b \<and>
              protocol_of a = JStr p \<and> protocol_of b = JStr q \<and> p \<noteq> q \<longrightarrow>
              deduplicate [a, b] opts = Inr [a, b] \<and>
              (\<forall>out. a \<in> set nodes \<and> b \<in> set nodes \<and> deduplicate nodes opts = Inr out \<longrightarrow>
                 (\<exists>x \<in> set out. \<exists>y \<in> set out. x \<noteq> y \<and>
                    generateKey x [''server'', ''port'', ''protocol'']
                      = generateKey a [''server'', ''port'', ''protocol''] \<and>
                    generateKey y [''server'', ''port'', ''protocol'']
                      = generateKey b [''server'', ''port'', ''protocol''])))"
proof -
  let ?fs = "[''server'', ''port'', ''protocol'']"
  have fs: "the_compareFields opts = ?fs" using assms by (simp add: the_compareFields_def)
  have A: "set out \<subseteq> set nodes \<and>
      (\<forall>i<length out. \<forall>j<length out. same_fingerprint (out ! i) (out ! j) \<longrightarrow> i = j)"
    if "deduplicate nodes opts = Inr out" for out
  proof -
    from that obtain m where m: "dedup_loop ?fs (the_preferLower opts) nodes [] = Inr m"
      and out: "out = map snd m"
      by (auto simp: deduplicate_def fs split: sum.splits)
    note inv = dedup_loop_keys [OF m]
    have dist: "distinct (map fst m)" using inv by (simp add: first_occurrences_distinct)
    have sub: "set out \<subseteq> set nodes" using inv out by auto
    have "i = j" if i: "i < length out" and j: "j < length out"
      and sf: "same_fingerprint (out ! i) (out ! j)" for i j
    proof -
      have "m ! i \<in> set m" "m ! j \<in> set m" using i j out by simp_all
      then have "fst (m ! i) = generateKey (snd (m ! i)) ?fs" "fst (m ! j) = generateKey (snd (m ! j)) ?fs"
        using inv by (auto simp: split_def)
      then have "map fst m ! i = map fst m ! j"
        using same_fingerprint_key [OF sf] i j out by simp
      then show "i = j" using dist i j out nth_eq_iff_index_eq [of "map fst m" i j] by simp
    qed
    then show ?thesis using sub by blast
  qed
  have B: "deduplicate [a, b] opts = Inr [a, b] \<and>
              (\<forall>out. a \<in> set nodes \<and> b \<in> set nodes \<and> deduplicate nodes opts = Inr out \<longrightarrow>
                 (\<exists>x \<in> set out. \<exists>y \<in> set out. x \<noteq> y \<and>
                    generateKey x ?fs = generateKey a ?fs \<and> generateKey y ?fs = generateKey b ?fs))"
    if h: "server_of a = server_of b \<and> port_of a = port_of b \<and>
              protocol_of a = JStr p \<and> protocol_of b = JStr q \<and> p \<noteq> q" for a b p q
  proof -
    have ne: "generateKey a ?fs \<noteq> generateKey b ?fs"
      using h by (simp add: default_key)
    then have two: "deduplicate [a, b] opts = Inr [a, b]"
      unfolding deduplicate_def fs by (simp add: dedup_pair_distinct_keys del: dedup_loop.simps)
    have rep: "\<exists>x \<in> set out. \<exists>y \<in> set out. x \<noteq> y \<and>
                    generateKey x ?fs = generateKey a ?fs \<and> generateKey y ?fs = generateKey b ?fs"
      if m: "a \<in> set nodes \<and> b \<in> set nodes \<and> deduplicate nodes opts = Inr out" for out
    proof -
      from m obtain mp where mp: "dedup_loop ?fs (the_preferLower opts) nodes [] = Inr mp"
        and out: "out = map snd mp"
        by (auto simp: deduplicate_def fs split: sum.splits)
      note inv = dedup_loop_keys [OF mp]
      have "set (map fst mp) = set (map (\<lambda>n. generateKey n ?fs) nodes)"
        using inv by (simp only: first_occurrences_set)
      then have keys: "fst ` set mp = (\<lambda>n. generateKey n ?fs) ` set nodes"
        by (simp only: set_map)
      have "generateKey a ?fs \<in> fst ` set mp" unfolding keys using m by (intro imageI) simp
      then obtain x where x: "(generateKey a ?fs, x) \<in> set mp" by force
      have "generateKey b ?fs \<in> fst ` set mp" unfolding keys using m by (intro imageI) simp
      then obtain y where y: "(generateKey b ?fs, y) \<in> set mp" by force
      have inv2: "\<And>k v. (k, v) \<in> set mp \<Longrightarrow> k = generateKey v ?fs" using inv by blast
      have kx: "generateKey x ?fs = generateKey a ?fs" using inv2 [OF x] by simp
      have ky: "generateKey y ?fs = generateKey b ?fs" using inv2 [OF y] by simp
      have "x \<noteq> y" using kx ky ne by auto
      moreover have "x \<in> set out" unfolding out using x by (simp only: set_map) force
      moreover have "y \<in> set out" unfolding out using y by (simp only: set_map) force
      ultimately show ?thesis using kx ky by blast
    qed
    show ?thesis using two rep by blast
  qed
  show ?thesis using A B by blast
qed

text \<open>
  The scenario of the specification: a vmess and a shadowsocks node on \<open>1.1.1.1:443\<close>.
\<close>

theorem deduplicate_default_key_witness:
  "compareFields default_options = None \<and>
   deduplicate [scenario_vmess, scenario_ss] default_options = Inr [scenario_vmess, scenario_ss] \<and>
   \<not> same_fingerprint scenario_vmess scenario_ss"
proof -
  have c: "compareFields default_options = None" by (simp add: default_options_def)
  have p: "server_of scenario_vmess = server_of scenario_ss \<and> port_of scenario_vmess = port_of scenario_ss \<and>
      protocol_of scenario_vmess = JStr ''vmess'' \<and> protocol_of scenario_ss = JStr ''shadowsocks'' \<and>
      ''vmess'' \<noteq> ''shadowsocks''"
    by (simp add: server_of_def port_of_def protocol_of_def scenario_vmess_def scenario_ss_def)
  have r: "deduplicate [scenario_vmess, scenario_ss] default_options = Inr [scenario_vmess, scenario_ss]"
    using deduplicate_default_key [OF c, of "[scenario_vmess, scenario_ss]"] p by blast
  have u: "\<forall>i<2. \<forall>j<2. same_fingerprint ([scenario_vmess, scenario_ss] ! i) ([scenario_vmess, scenario_ss] ! j) \<longrightarrow> i = j"
    using deduplicate_default_key [OF c, of "[scenario_vmess, scenario_ss]"] r by simp
  have "\<not> same_fingerprint scenario_vmess scenario_ss"
    using u [rule_format, of 0 1] by auto
  then show ?thesis using c r by simp
qed

text \<open>
  Claim C4. \<open>deduplicate\<close> is idempotent: applied to a list it returned, with the same
  options, it returns that list unchanged.
\<close>

theorem deduplicate_idempotent:
  "deduplicate nodes opts = Inr out \<Longrightarrow> deduplicate out opts = Inr out"
proof -
  assume "deduplicate nodes opts = Inr out"
  then obtain m where m: "dedup_loop (the_compareFields opts) (the_preferLower opts) nodes [] = Inr m"
    and out: "out = map snd m"
    by (auto simp: deduplicate_def split: sum.splits)
  note inv = dedup_loop_keys [OF m]
  have "dedup_loop (the_compareFields opts) (the_preferLower opts) (map snd m) [] = Inr ([] @ m)"
    using inv by (intro dedup_loop_fresh) (auto simp: first_occurrences_distinct)
  then show ?thesis by (simp add: deduplicate_def out)
qed

text \<open>
  Three nodes, the third replacing the first on the shared key; deduplicating the result
  again changes nothing.
\<close>

theorem deduplicate_idempotent_witness:
  "deduplicate [probed ''a'' ''h1'' 100, bare ''b'' ''h2'', probed ''c'' ''h1'' 50] default_options
     = Inr [probed ''c'' ''h1'' 50, bare ''b'' ''h2''] \<and>
   deduplicate [probed ''c'' ''h1'' 50, bare ''b'' ''h2''] default_options
     = Inr [probed ''c'' ''h1'' 50, bare ''b'' ''h2'']"
proof -
  have a: "deduplicate [probed ''a'' ''h1'' 100, bare ''b'' ''h2'', probed ''c'' ''h1'' 50] default_options
     = Inr [probed ''c'' ''h1'' 50, bare ''b'' ''h2'']"
    by code_simp
  show ?thesis using a deduplicate_idempotent [OF a] by simp
qed

lemma dedup_loop_no_prefer: "\<exists>m'. dedup_loop fs False xs m = Inr m'"
  by (induction xs arbitrary: m) (auto simp: dedup_step_def replaces_def Let_def)

text \<open>
  Claim C10, as amended. (1) When every input node has an \<open>extra\<close> object,
  \<open>deduplicate\<close> returns a list, whatever the options. (2) With \<open>preferLower\<close> false it
  returns a list for every input: the latency reads are behind \<open>preferLower &&\<close>.
  (3) With \<open>preferLower\<close> set (the default), an input in which a node without \<open>extra\<close>
  has the key of an earlier node fails with a TypeError instead of returning a list.
\<close>

theorem deduplicate_extra_guard:
  "((\<forall>n \<in> set nodes. has_extra n) \<longrightarrow> (\<exists>out. deduplicate nodes opts = Inr out)) \<and>
   (\<not> the_preferLower opts \<longrightarrow> (\<exists>out. deduplicate nodes opts = Inr out)) \<and>
   (the_preferLower opts \<and> i < j \<and> j < length nodes \<and>
      is_object (nodes ! i) \<and> is_object (nodes ! j) \<and>
      generateKey (nodes ! i) (the_compareFields opts) = generateKey (nodes ! j) (the_compareFields opts) \<and>
      own_prop (nodes ! j) ''extra'' = JUndefined \<longrightarrow>
    deduplicate nodes opts = Inl TypeError)"
proof (intro conjI impI)
  assume "\<forall>n \<in> set nodes. has_extra n"
  then obtain m where "dedup_loop (the_compareFields opts) (the_preferLower opts) nodes [] = Inr m"
    using dedup_loop_total [of nodes "[]" "the_compareFields opts" "the_preferLower opts"] by auto
  then show "\<exists>out. deduplicate nodes opts = Inr out" by (simp add: deduplicate_def)
next
  assume "\<not> the_preferLower opts"
  then obtain m where "dedup_loop (the_compareFields opts) (the_preferLower opts) nodes [] = Inr m"
    using dedup_loop_no_prefer [of "the_compareFields opts" nodes "[]"] by auto
  then show "\<exists>out. deduplicate nodes opts = Inr out" by (simp add: deduplicate_def)
next
  assume h: "the_preferLower opts \<and> i < j \<and> j < length nodes \<and>
      is_object (nodes ! i) \<and> is_object (nodes ! j) \<and>
      generateKey (nodes ! i) (the_compareFields opts) = generateKey (nodes ! j) (the_compareFields opts) \<and>
      own_prop (nodes ! j) ''extra'' = JUndefined"
  then have "dedup_loop (the_compareFields opts) True nodes [] = Inl TypeError"
    by (intro dedup_loop_fails_collision [of i j]) (auto simp: extra_latency_no_extra)
  then show "deduplicate nodes opts = Inl TypeError" using h by (simp add: deduplicate_def)
qed

text \<open>
  The three parts at concrete lists: two probed nodes on one key; two nodes without
  \<open>extra\<close> on one key with \<open>preferLower: false\<close>; a probed node followed by a node
  without \<open>extra\<close> on the same key with the default options.
\<close>

theorem deduplicate_extra_guard_witness:
  "(\<exists>out. deduplicate [probed ''a'' ''h1'' 100, probed ''c'' ''h1'' 50] default_options = Inr out) \<and>
   (\<exists>out. deduplicate [bare ''a'' ''h1'', bare ''b'' ''h1''] no_prefer = Inr out) \<and>
   deduplicate [probed ''a'' ''h1'' 100, bare ''b'' ''h1''] default_options = Inl TypeError"
proof -
  let ?xs = "[probed ''a'' ''h1'' 100, probed ''c'' ''h1'' 50]"
  let ?ys = "[probed ''a'' ''h1'' 100, bare ''b'' ''h1'']"
  have 1: "\<forall>n \<in> set ?xs. has_extra n"
    by (simp add: has_extra_def is_object_def probed_def)
  have 2: "\<not> the_preferLower no_prefer" by (simp add: the_preferLower_def no_prefer_def)
  have 3: "the_preferLower default_options \<and> (0::nat) < 1 \<and> 1 < length ?ys \<and>
      is_object (?ys ! 0) \<and> is_object (?ys ! 1) \<and>
      generateKey (?ys ! 0) (the_compareFields default_options) =
        generateKey (?ys ! 1) (the_compareFields default_options) \<and>
      own_prop (?ys ! 1) ''extra'' = JUndefined"
    by (simp add: the_preferLower_def the_compareFields_def default_options_def is_object_def
        probed_def bare_def default_key server_of_def port_of_def protocol_of_def)
  show ?thesis
    using deduplicate_extra_guard [of ?xs default_options 0 1] 1
      deduplicate_extra_guard [of "[bare ''a'' ''h1'', bare ''b'' ''h1'']" no_prefer 0 1] 2
      deduplicate_extra_guard [of ?ys default_options 0 1] 3
    by blast
qed

text \<open>
  Claim C10 as stated fails twice. A node without \<open>extra\<close> that collides with nothing is
  returned, so the operation is total on some lists whose nodes have no \<open>extra\<close>; and
  with \<open>preferLower: false\<close> a node without \<open>extra\<close> that collides with an earlier node
  is dropped silently and a list is returned.
\<close>

theorem deduplicate_extra_guard_counterexample:
  "deduplicate [bare ''a'' ''h1''] default_options = Inr [bare ''a'' ''h1''] \<and>
   \<not> has_extra (bare ''a'' ''h1'') \<and>
   deduplicate [probed ''a'' ''h1'' 100, bare ''b'' ''h1''] no_prefer = Inr [probed ''a'' ''h1'' 100] \<and>
   \<not> has_extra (bare ''b'' ''h1'') \<and>
   generateKey (probed ''a'' ''h1'' 100) (the_compareFields no_prefer)
     = generateKey (bare ''b'' ''h1'') (the_compareFields no_prefer)"
  by code_simp

text \<open>
  Claim C3, as amended. For nodes that have an \<open>extra\<close> object whose latency is a number or
  absent, whenever \<open>deduplicate\<close> returns \<open>out\<close>:
  the keys of \<open>out\<close> are the keys of the input, each once, in the order of their first
  occurrence (a node that replaced another stands where the key first stood);
  a kept node that carries a non-zero latency is, with \<open>preferLower\<close>, at most as slow as
  every node of its key that carries one; a kept node without one, and every kept node
  when \<open>preferLower\<close> is unset, is the earliest node of its key.
  On an input of two colliding nodes the second is kept exactly when \<open>preferLower\<close> is
  set, both latencies are non-zero and the second is strictly lower; otherwise the first.
  (The function has no state besides its arguments: equal inputs give equal outputs.)
\<close>

theorem deduplicate_keeps:
  assumes "\<forall>n \<in> set nodes. probed_or_unprobed n"
  shows "(\<forall>out. deduplicate nodes opts = Inr out \<longrightarrow>
            map (\<lambda>n. generateKey n (the_compareFields opts)) out
              = first_occurrences (map (\<lambda>n. generateKey n (the_compareFields opts)) nodes) \<and>
            (\<forall>w \<in> set out.
               winner_inv (the_compareFields opts) (the_preferLower opts) nodes
                 (generateKey w (the_compareFields opts)) w))
       \<and> (\<forall>a b. nodes = [a, b] \<and>
              generateKey a (the_compareFields opts) = generateKey b (the_compareFields opts) \<longrightarrow>
            deduplicate nodes opts =
              Inr [if the_preferLower opts \<and> carries_latency b \<and> carries_latency a \<and>
                      latency_ms b < latency_ms a then b else a])"
proof -
  let ?fs = "the_compareFields opts" and ?pl = "the_preferLower opts"
  have A: "map (\<lambda>n. generateKey n ?fs) out = first_occurrences (map (\<lambda>n. generateKey n ?fs) nodes) \<and>
            (\<forall>w \<in> set out. winner_inv ?fs ?pl nodes (generateKey w ?fs) w)"
    if "deduplicate nodes opts = Inr out" for out
  proof -
    from that obtain m where m: "dedup_loop ?fs ?pl nodes [] = Inr m" and out: "out = map snd m"
      by (auto simp: deduplicate_def split: sum.splits)
    note inv = dedup_loop_keys [OF m]
    have dist: "distinct (map fst m)" using inv by (simp add: first_occurrences_distinct)
    have "map (\<lambda>e. generateKey (snd e) ?fs) m = map fst m"
      using inv by (intro map_cong) auto
    then have keyed: "map (\<lambda>n. generateKey n ?fs) out = map fst m"
      by (simp add: out comp_def)
    have "winner_inv ?fs ?pl nodes (generateKey w ?fs) w" if "w \<in> set out" for w
    proof -
      from that obtain k where kw: "(k, w) \<in> set m" by (auto simp: out)
      then have "k = generateKey w ?fs" using inv by auto
      moreover have "map_of m k = Some w" using kw dist by simp
      ultimately show ?thesis using dedup_loop_winner [OF m assms] by blast
    qed
    then show ?thesis using keyed inv by simp
  qed
  have B: "deduplicate nodes opts =
              Inr [if ?pl \<and> carries_latency b \<and> carries_latency a \<and> latency_ms b < latency_ms a then b else a]"
    if h: "nodes = [a, b] \<and> generateKey a ?fs = generateKey b ?fs" for a b
  proof -
    have pa: "probed_or_unprobed a" and pb: "probed_or_unprobed b" using assms h by simp_all
    have ta: "truthy a" using pa by (simp add: probed_has_extra has_extra_object is_object_truthy)
    show ?thesis
      using h ta
      by (auto simp: deduplicate_def dedup_step_def map_get_def replaces_probed [OF pb pa] Let_def)
  qed
  show ?thesis using A B by blast
qed

text \<open>
  Two probed nodes on one key, the later one faster: it is the one kept.
\<close>

theorem deduplicate_keeps_witness:
  "probed_or_unprobed (probed ''a'' ''h1'' 100) \<and> probed_or_unprobed (probed ''c'' ''h1'' 50) \<and>
   deduplicate [probed ''a'' ''h1'' 100, probed ''c'' ''h1'' 50] default_options
     = Inr [probed ''c'' ''h1'' 50] \<and>
   winner_inv (the_compareFields default_options) (the_preferLower default_options)
     [probed ''a'' ''h1'' 100, probed ''c'' ''h1'' 50]
     (generateKey (probed ''c'' ''h1'' 50) (the_compareFields default_options)) (probed ''c'' ''h1'' 50)"
proof -
  let ?xs = "[probed ''a'' ''h1'' 100, probed ''c'' ''h1'' 50]"
  have 1: "\<forall>n \<in> set ?xs. probed_or_unprobed n"
    by (simp add: probed_or_unprobed_def has_extra_def is_object_def latency_of_def probed_def)
  have 2: "deduplicate ?xs default_options = Inr [probed ''c'' ''h1'' 50]"
    by code_simp
  show ?thesis using deduplicate_keeps [OF 1, of default_options] 1 2 by auto
qed

text \<open>
  Claim C3 as stated fails. The output is not in the order in which the surviving nodes
  arrived: \<open>c\<close> arrives after \<open>b\<close> and is listed before it, because it takes the place of
  \<open>a\<close>. And a latency of \<open>0\<close> is read as no latency: \<open>d\<close> is lower than \<open>a\<close>, both carry
  a latency and \<open>preferLower\<close> is set, yet \<open>a\<close> is kept.
\<close>

theorem deduplicate_order_counterexample:
  "deduplicate [probed ''a'' ''h1'' 100, probed ''b'' ''h2'' 70, probed ''c'' ''h1'' 50] default_options
     = Inr [probed ''c'' ''h1'' 50, probed ''b'' ''h2'' 70] \<and>
   deduplicate [probed ''a'' ''h1'' 5, probed ''d'' ''h1'' 0] default_options
     = Inr [probed ''a'' ''h1'' 5]"
  by code_simp

section \<open>Properties of the parser and the decoders\<close>

lemma own_prop_normalize_node [simp]:
  "server_of (normalize_node e i c) = own_prop c ''server''"
  "port_of (normalize_node e i c) = parseInt (own_prop c ''port'')"
  "protocol_of (normalize_node e i c) = own_prop c ''protocol''"
  by (simp_all add: normalize_node_def server_of_def port_of_def protocol_of_def)

lemma map_enumerate_field:
  "(\<And>i c. f (g i c) = h c) \<Longrightarrow> map (\<lambda>x. f (case x of (i, c) \<Rightarrow> g i c)) (enumerate n xs) = map h xs"
  by (induction xs arbitrary: n) auto

lemma normalize_fields:
  "map server_of (normalize e cands) = map (\<lambda>c. own_prop c ''server'') (filter isValid cands)"
  "map port_of (normalize e cands) = map (\<lambda>c. parseInt (own_prop c ''port'')) (filter isValid cands)"
  "map protocol_of (normalize e cands) = map (\<lambda>c. own_prop c ''protocol'') (filter isValid cands)"
  by (simp_all add: normalize_def comp_def map_enumerate_field)

lemma normalize_server_truthy:
  assumes "n \<in> set (normalize e cands)"
  shows "truthy (server_of n)"
proof -
  have "server_of n \<in> set (map server_of (normalize e cands))" using assms by simp
  then obtain c where "c \<in> set (filter isValid cands)" "server_of n = own_prop c ''server''"
    unfolding normalize_fields by auto
  then show ?thesis by (simp add: isValid_def)
qed

lemma try_backups_normalize:
  "try_backups e fs raw = Some out \<Longrightarrow> \<exists>cands. out = normalize e cands"
  by (induction fs) (auto split: sum.splits)

lemma parse_normalize:
  "SubscriptionParser_parse e raw = Inr out \<Longrightarrow> \<exists>cands. out = normalize e cands"
  by (auto simp: SubscriptionParser_parse_def Let_def split: if_splits sum.splits option.splits
           dest: try_backups_normalize)

text \<open>
  Claim C1, as amended. The nodes \<open>normalize\<close> returns are, in order, the candidates that
  pass its guard (\<open>node && node.type && node.server && node.port\<close>): each with the
  candidate's server, the \<open>parseInt\<close> of the candidate's port and the candidate's protocol.
  So every returned node has a truthy server, which is not empty when it is a string;
  the port is not checked against a range and the protocol is not checked at all.
  A candidate that fails the guard is left out and does not abort the parse: when the
  parser of the detected format returns candidates, \<open>parse\<close> returns their normalization;
  and every node \<open>parse\<close> returns, from that parser or from a fallback one, has a truthy
  server.
\<close>

theorem normalize_guard:
  "map server_of (normalize e cands) = map (\<lambda>c. own_prop c ''server'') (filter isValid cands) \<and>
   map port_of (normalize e cands) = map (\<lambda>c. parseInt (own_prop c ''port'')) (filter isValid cands) \<and>
   map protocol_of (normalize e cands) = map (\<lambda>c. own_prop c ''protocol'') (filter isValid cands) \<and>
   (\<forall>n \<in> set (normalize e cands). truthy (server_of n) \<and> (\<forall>s. server_of n = JStr s \<longrightarrow> s \<noteq> [])) \<and>
   (raw \<noteq> [] \<and> run_parser e (detectFormat e raw) raw = Inr cands \<longrightarrow>
      SubscriptionParser_parse e raw = Inr (normalize e cands)) \<and>
   (SubscriptionParser_parse e raw = Inr out \<longrightarrow>
      (\<forall>n \<in> set out. truthy (server_of n) \<and> (\<forall>s. server_of n = JStr s \<longrightarrow> s \<noteq> [])))"
proof -
  have t: "truthy (server_of n) \<and> (\<forall>s. server_of n = JStr s \<longrightarrow> s \<noteq> [])"
    if "n \<in> set (normalize e cs)" for n cs
    using normalize_server_truthy [OF that] by auto
  have p: "SubscriptionParser_parse e raw = Inr (normalize e cands)"
    if "raw \<noteq> [] \<and> run_parser e (detectFormat e raw) raw = Inr cands"
    using that by (simp add: SubscriptionParser_parse_def)
  have q: "\<forall>n \<in> set out. truthy (server_of n) \<and> (\<forall>s. server_of n = JStr s \<longrightarrow> s \<noteq> [])"
    if "SubscriptionParser_parse e raw = Inr out"
    using parse_normalize [OF that] t by blast
  show ?thesis using normalize_fields [of e cands] t p q by blast
qed

text \<open>
  A \<open>null\<close> candidate is dropped and a vmess candidate with port 70000 is returned with
  that port; a one-line trojan subscription is parsed and normalized.
\<close>

theorem normalize_guard_witness:
  "map port_of (normalize sample_env [JNull, vmess_70000]) = [JNum 70000] \<and>
   map server_of (normalize sample_env [JNull, vmess_70000]) = [JStr ''h.example''] \<and>
   SubscriptionParser_parse sample_env ''trojan://pw@h.example:443''
     = Inr (normalize sample_env [PlainTextParser_parseTrojan ''trojan://pw@h.example:443''])"
proof -
  have f: "filter isValid [JNull, vmess_70000] = [vmess_70000]"
    by (simp add: isValid_def vmess_70000_def)
  have pi: "parseInt (JNum 70000) = JNum 70000" by code_simp
  have r: "''trojan://pw@h.example:443'' \<noteq> [] \<and>
     run_parser sample_env (detectFormat sample_env ''trojan://pw@h.example:443'') ''trojan://pw@h.example:443''
       = Inr [PlainTextParser_parseTrojan ''trojan://pw@h.example:443'']"
    by code_simp
  show ?thesis
    using normalize_guard [where e = sample_env and cands = "[JNull, vmess_70000]"]
      normalize_guard [where e = sample_env and raw = "''trojan://pw@h.example:443''"
         and cands = "[PlainTextParser_parseTrojan ''trojan://pw@h.example:443'']"] r f pi
    by (simp add: vmess_70000_def)
qed

text \<open>
  Claim C1 as stated fails: \<open>normalize\<close> returns nodes that violate the invariant. The
  candidate \<open>Base64Parser.parseTrojan\<close> builds for \<open>trojan://pw@h.example:0\<close> has the port
  \<open>"0"\<close>, a non-empty string and so truthy, and the node returned has port \<open>0\<close>; a
  vmess candidate with port 70000 is returned with port 70000.
\<close>

theorem normalize_guard_counterexample:
  "map port_of (normalize sample_env [Base64Parser_parseTrojan ''trojan://pw@h.example:0'']) = [JNum 0] \<and>
   \<not> list_all spec_node_invariant (normalize sample_env [Base64Parser_parseTrojan ''trojan://pw@h.example:0'']) \<and>
   map port_of (normalize sample_env [vmess_70000]) = [JNum 70000] \<and>
   \<not> list_all spec_node_invariant (normalize sample_env [vmess_70000])"
  by code_simp

text \<open>
  Claim C5 fails on the code at its own example,
  \<open>trojan://p@ss%21@host.example:443?sni=h.example#My%20Node\<close>. Both decoders give the
  protocol, server, port 443, SNI and name the claim states, and neither the password
  \<open>p@ss!\<close>: \<open>PlainTextParser.parseTrojan\<close> does not pre-encode and does not decode
  (\<open>password = url.username\<close>), so the password is \<open>p%40ss%21\<close>;
  \<open>Base64Parser.parseTrojan\<close> pre-encodes and decodes, but takes the password segment from
  index 8, the second slash of \<open>trojan://\<close>, so the password is \<open>/p@ss!\<close>.
\<close>

theorem parseTrojan_password:
  "PlainTextParser_parseTrojan trojan_special =
     JObj [(''type'', JStr ''trojan''), (''name'', JStr ''My Node''),
           (''server'', JStr ''host.example''), (''port'', JNum 443),
           (''protocol'', JStr ''trojan''),
           (''settings'', JObj [(''password'', JStr ''p%40ss%21''), (''sni'', JStr ''h.example''),
                               (''allowInsecure'', JBool False)]),
           (''extra'', JObj [(''raw'', JStr trojan_special)])] \<and>
   Base64Parser_parseTrojan trojan_special =
     JObj [(''type'', JStr ''trojan''), (''name'', JStr ''My Node''),
           (''server'', JStr ''host.example''), (''port'', JStr ''443''),
           (''protocol'', JStr ''trojan''),
           (''settings'', JObj [(''password'', JStr ''/p@ss!''), (''sni'', JStr ''h.example''),
                               (''allowInsecure'', JBool False)]),
           (''extra'', JObj [(''raw'', JStr trojan_special)])]"
  by code_simp

text \<open>
  The passwords alone, read off the two nodes: neither is \<open>p@ss!\<close>.
\<close>

theorem parseTrojan_password_witness:
  "own_prop (own_prop (PlainTextParser_parseTrojan trojan_special) ''settings'') ''password''
     = JStr ''p%40ss%21'' \<and>
   own_prop (own_prop (Base64Parser_parseTrojan trojan_special) ''settings'') ''password''
     = JStr ''/p@ss!'' \<and>
   JStr ''p%40ss%21'' \<noteq> JStr ''p@ss!'' \<and> JStr ''/p@ss!'' \<noteq> JStr ''p@ss!''"
  using parseTrojan_password by simp

lemma vless_prefix:
  assumes "starts_with ''vless://'' line"
  shows "\<exists>rest. line = ''vless://'' @ rest"
proof -
  have "take (length ''vless://'') line = ''vless://''" using assms by (simp only: starts_with_def)
  then have "line = ''vless://'' @ drop (length ''vless://'') line" by (metis append_take_drop_id)
  then show ?thesis by blast
qed

text \<open>
  Claim C6 fails on the code: \<open>PlainTextParser.parseLine\<close> has no branch for
  \<open>vless://\<close>. Whatever the platform and the other decoders, a line that starts with
  \<open>vless://\<close> gives \<open>null\<close>.
\<close>

theorem vless_line_not_decoded:
  "starts_with ''vless://'' line \<Longrightarrow> PlainTextParser_parseLine e line = JNull"
proof -
  assume "starts_with ''vless://'' line"
  then obtain rest where "line = ''vless://'' @ rest" using vless_prefix by blast
  then show ?thesis by (simp add: PlainTextParser_parseLine_def starts_with_def)
qed

text \<open>
  The payload \<open>vless://uuid@host.example:443#n\<close>: \<open>detectFormat\<close> takes it for a plain URI
  list, \<open>PlainTextParser\<close> drops the line and \<open>parse\<close> returns no node, while
  \<open>Base64Parser.parseVless\<close> decodes the same line into a vless node with
  \<open>network = tcp\<close> and \<open>security = none\<close>.
\<close>

theorem vless_line_not_decoded_witness:
  "starts_with ''vless://'' vless_line \<and>
   PlainTextParser_parseLine sample_env vless_line = JNull \<and>
   detectFormat sample_env vless_line = Plain \<and>
   SubscriptionParser_parse sample_env vless_line = Inr [] \<and>
   Base64Parser_parseVless vless_line =
     JObj [(''type'', JStr ''vless''), (''name'', JStr ''n''),
           (''server'', JStr ''host.example''), (''port'', JStr ''443''),
           (''protocol'', JStr ''vless''),
           (''settings'', JObj [(''id'', JStr ''uuid''), (''network'', JStr ''tcp''),
              (''security'', JStr ''none''), (''sni'', JStr ''host.example''),
              (''fp'', JStr []), (''alpn'', JStr []), (''path'', JStr ''/''),
              (''host'', JStr []), (''encryption'', JStr ''none''), (''flow'', JStr [])]),
           (''extra'', JObj [(''raw'', JStr vless_line)])]"
proof -
  have s: "starts_with ''vless://'' vless_line" by code_simp
  have d: "detectFormat sample_env vless_line = Plain" by code_simp
  have p: "SubscriptionParser_parse sample_env vless_line = Inr []" by code_simp
  have b: "Base64Parser_parseVless vless_line =
     JObj [(''type'', JStr ''vless''), (''name'', JStr ''n''),
           (''server'', JStr ''host.example''), (''port'', JStr ''443''),
           (''protocol'', JStr ''vless''),
           (''settings'', JObj [(''id'', JStr ''uuid''), (''network'', JStr ''tcp''),
              (''security'', JStr ''none''), (''sni'', JStr ''host.example''),
              (''fp'', JStr []), (''alpn'', JStr []), (''path'', JStr ''/''),
              (''host'', JStr []), (''encryption'', JStr ''none''), (''flow'', JStr [])]),
           (''extra'', JObj [(''raw'', JStr vless_line)])]" by code_simp
  show ?thesis using vless_line_not_decoded [OF s, of sample_env] s d p b by simp
qed

section \<open>Properties of the node tester\<close>



section \<open>Properties of the node analyzer\<close>

lemma regex_match_skip:
  "\<forall>j<length pre. \<not> key_here keys (drop j (pre @ rest)) \<Longrightarrow>
   regex_match keys (pre @ rest) = regex_match keys rest"
proof (induction pre)
  case Nil
  then show ?case by simp
next
  case (Cons c pre)
  have "\<not> key_here keys (drop 0 ((c # pre) @ rest))" using Cons.prems by blast
  then have nf: "find (\<lambda>k. ci_prefix k (c # pre @ rest)) keys = None"
    by (simp add: key_here_def find_None_iff list_ex_iff)
  have "\<forall>j<length pre. \<not> key_here keys (drop j (pre @ rest))"
  proof (intro allI impI)
    fix j assume "j < length pre"
    then have "\<not> key_here keys (drop (Suc j) ((c # pre) @ rest))" using Cons.prems by auto
    then show "\<not> key_here keys (drop j (pre @ rest))" by simp
  qed
  then show ?case using Cons.IH nf by simp
qed

lemma ci_prefix_self: "ci_prefix k (k @ post)"
  by (induction k) auto

lemma country_keys_head: "\<exists>ks. map fst countryMap = us_flag # ks"
  by (simp add: countryMap_def us_flag_def)

lemma us_flag_nonempty: "\<exists>c cs. us_flag @ post = c # cs"
  by (simp add: us_flag_def)

lemma regex_match_us_flag: "regex_match (map fst countryMap) (us_flag @ post) = Some us_flag"
proof -
  obtain ks where ks: "map fst countryMap = us_flag # ks" using country_keys_head ..
  obtain c cs where s: "us_flag @ post = c # cs" using us_flag_nonempty [of post] by (elim exE)
  have "find (\<lambda>k. ci_prefix k (us_flag @ post)) (us_flag # ks) = Some us_flag"
    by (simp add: ci_prefix_self)
  then have "regex_match (us_flag # ks) (c # cs) = Some (take (length us_flag) (c # cs))"
    by (simp add: s)
  then show ?thesis by (simp add: ks s [symmetric])
qed

lemma countryMap_us_flag: "map_of countryMap us_flag = Some ''US''"
  by (simp add: countryMap_def us_flag_def)

lemma countryNames_US: "\<exists>n. map_of countryNames ''US'' = Some n"
  by (simp add: countryNames_def)

text \<open>
  Claim C8, as amended. For every node whose display name contains the flag of the United
  States, if no key of the country map matches at a position before the flag, the
  analysis assigns the country code \<open>US\<close>. Nothing is stated about a name in which a key
  matches before the flag, nor about a name that holds the letters \<open>US\<close> and no flag.
\<close>

theorem analyze_us_flag:
  assumes "own_prop node ''name'' = JStr (pre @ us_flag @ post)"
    and "\<forall>j<length pre. \<not> key_here (map fst countryMap) (drop j (pre @ us_flag @ post))"
  shows "\<exists>r. analyze_country node = Inr r \<and> countryCode r = JStr ''US''"
proof -
  have "regex_match (map fst countryMap) (pre @ us_flag @ post) = Some us_flag"
    using regex_match_skip [OF assms(2)] regex_match_us_flag by simp
  moreover have "js_or (JStr (pre @ us_flag @ post)) (JStr []) = JStr (pre @ us_flag @ post)"
    by (simp add: js_or_def us_flag_def)
  ultimately show ?thesis
    using assms(1) countryMap_us_flag countryNames_US
    by (auto simp: analyze_country_def)
qed

text \<open>
  The name \<open>Node <flag> 01\<close>: no key matches in \<open>Node \<close>, the flag does.
\<close>

theorem analyze_us_flag_witness:
  "own_prop (named (''Node '' @ us_flag @ '' 01'')) ''name'' = JStr (''Node '' @ us_flag @ '' 01'') \<and>
   \<not> key_here (map fst countryMap) (''Node '' @ us_flag @ '' 01'') \<and>
   (\<exists>r. analyze_country (named (''Node '' @ us_flag @ '' 01'')) = Inr r \<and> countryCode r = JStr ''US'')"
proof -
  have n: "own_prop (named (''Node '' @ us_flag @ '' 01'')) ''name'' = JStr (''Node '' @ us_flag @ '' 01'')"
    by (simp add: named_def)
  have k: "\<forall>j<length ''Node ''. \<not> key_here (map fst countryMap) (drop j (''Node '' @ us_flag @ '' 01''))"
  proof -
    have "list_all (\<lambda>j. \<not> key_here (map fst countryMap) (drop j (''Node '' @ us_flag @ '' 01''))) [0..<5]"
      by code_simp
    then show ?thesis by (auto simp: list_all_iff)
  qed
  have k0: "\<not> key_here (map fst countryMap) (''Node '' @ us_flag @ '' 01'')"
    using k [rule_format, of 0] by simp
  show ?thesis using analyze_us_flag [OF n k] n k0 by blast
qed

text \<open>
  Claim C8 as stated fails. The name \<open>US 01\<close> holds the token \<open>US\<close> on its own and gets
  no country code: the keys for the United States are the flag, the Chinese name,
  \<open>United States\<close> and \<open>USA\<close>. And the name \<open><flag of Hong Kong> HK -> <flag of the
  United States>\<close> contains the flag and gets \<open>HK\<close>: the match taken is the leftmost
  one, here the flag of Hong Kong.
\<close>

theorem analyze_us_counterexample:
  "analyze_country (named ''US 01'') = Inr \<lparr>countryCode = JNull, country = JNull\<rparr> \<and>
   (case analyze_country (named (hk_flag @ '' HK -> '' @ us_flag)) of
      Inr r \<Rightarrow> countryCode r = JStr ''HK'' | Inl e \<Rightarrow> False)"
  by code_simp

section \<open>Properties of the emitter\<close>





lemma map_lines_length: "map_lines gn nodes = Inr ls \<Longrightarrow> length ls = length nodes"
  by (induction nodes arbitrary: ls) (auto split: sum.splits)




end
